theory Spec2Isabelle
  imports Main
begin

section \<open>Python values, types and trait descriptors\<close>

text \<open>
  The development embeds \<^verbatim>\<open>src/gforms.py\<close>. The program is written against the
  Traits library; the library is not part of the repository, so the few library
  operations the program calls (trait validation, \<^verbatim>\<open>set\<close>, \<^verbatim>\<open>get\<close>,
  \<^verbatim>\<open>reset_traits\<close>, \<^verbatim>\<open>add_trait\<close>, \<^verbatim>\<open>add_class_trait\<close>) are modelled from
  their documented behaviour, each where it is introduced.

  The value universe: \<^verbatim>\<open>None\<close>, \<^verbatim>\<open>int\<close>, \<^verbatim>\<open>str\<close>, \<^verbatim>\<open>list\<close>, the library's
  \<^verbatim>\<open>TraitListObject\<close> (what a list becomes once stored in a \<^verbatim>\<open>List\<close> trait),
  \<^verbatim>\<open>dict\<close> with string keys, instances of user classes with an attribute bag
  (\<^verbatim>\<open>__dict__\<close>), instances of user classes without one, and the program's own model
  instances. Dictionaries are association lists: the iteration order of a Python 2
  dictionary is taken to be the order of the list. A user class is identified by its name.
\<close>

datatype klass = GenericTraitK | ListClassModelK | DynClass nat

datatype pytype =
    NoneType | IntType | StrType | ListType | TraitListObjectType | DictType
  | UserClass string
  | ModelType klass

datatype inner = AnyInner | ClassInner nat

datatype trait =
    Int_t | CStr_t | Generic_t | Any_t
  | ListOfStr
  | List_t pytype
  | Instance_t klass bool

datatype pyval =
    PNone
  | PInt int
  | PStr string
  | PList "pyval list"
  | PTraitList "pyval list"
  | PDict "(string \<times> pyval) list"
  | PObj string "(string \<times> pyval) list"
  | POpaque string
  | PModel inst
and inst =
    ClassModelI nat "(string \<times> pyval) list" "pyval option"
  | ListClassModelI klass inner "pytype option" "pyval list"
  | GenericTraitI "(string \<times> trait) list" "(string \<times> pyval) list" "pyval option" bool bool

text \<open>
  \<^item> \<open>ClassModelI c vals orig\<close>: an instance of the \<^verbatim>\<open>ClassModel\<close> subclass \<open>c\<close>, the trait
    values assigned on it, and \<^verbatim>\<open>__orig_obj\<close>.
  \<^item> \<open>ListClassModelI k inner orig_class matrix\<close>: a \<^verbatim>\<open>ListClassModel\<close> instance with its
    \<^verbatim>\<open>_inner_type\<close>, \<^verbatim>\<open>_orig_class\<close> and \<^verbatim>\<open>_matrix\<close>.
  \<^item> \<open>GenericTraitI traits vals orig is_list is_dict\<close>: a \<^verbatim>\<open>GenericTrait\<close> instance with
    the traits added to it, their values, \<^verbatim>\<open>__orig_obj\<close>, \<^verbatim>\<open>__is_list\<close>, \<^verbatim>\<open>__is_dict\<close>.
\<close>

datatype error =
    TraitError string
  | TypeError string
  | AttributeError string
  | KeyError string
  | RuntimeError string

record cls =
  cname :: string
  is_list_class :: bool
  class_traits :: "(string \<times> trait) list"
  templates :: "(string \<times> (string \<times> pyval) list) list"
  inner_type :: "inner option"
  orig_class :: "pytype option"

text \<open>
  A class object: a subclass of \<^verbatim>\<open>ClassModel\<close>, or of \<^verbatim>\<open>ListClassModel\<close> when
  \<open>is_list_class\<close>. \<open>class_traits\<close> are the public traits declared on it, \<open>templates\<close> is
  \<^verbatim>\<open>_templates\<close>, \<open>inner_type\<close> the inner type the class supplies to
  \<^verbatim>\<open>ListClassModel.__init__\<close> (the class attribute \<^verbatim>\<open>_inner_type\<close>, or the
  \<^verbatim>\<open>innerClass\<close> that the generated \<^verbatim>\<open>__init__\<close> of \<^verbatim>\<open>_create_ListClass\<close> passes),
  \<open>orig_class\<close> the class attribute \<^verbatim>\<open>_orig_class\<close>.

  The global state: the class objects by allocation index, the two registries
  \<^verbatim>\<open>_api_types_to_trait\<close> and \<^verbatim>\<open>__dynamically_created_classes\<close>, for each user class the
  attribute bag of an instance constructed without arguments (\<open>None\<close> when that
  construction raises), and the lines written to the log stream.
\<close>

record gstate =
  classes :: "cls list"
  api_types_to_trait :: "string \<rightharpoonup> nat"
  dynamically_created_classes :: "string \<rightharpoonup> nat"
  noarg_instance :: "string \<Rightarrow> (string \<times> pyval) list option"
  stream :: "string list"

type_synonym 'a res = "(error + 'a) \<times> gstate"

subsection \<open>Logging\<close>

text \<open>
  \<^verbatim>\<open>log(level, *message)\<close> prints when \<^verbatim>\<open>_logging.loglevel >= level\<close>; the module sets
  \<^verbatim>\<open>_logging.loglevel = 1\<close>. The printed line is kept as its fixed text only; the
  indentation by \<^verbatim>\<open>_logging.depth\<close> is not modelled. The calls of \<^verbatim>\<open>log\<close> at the
  levels \<^verbatim>\<open>INFO\<close>, \<^verbatim>\<open>MORE_INFO\<close> and \<^verbatim>\<open>DEBUG\<close> print nothing at this level and
  are left out of the functions below.
\<close>

definition LOG_ERROR :: nat where "LOG_ERROR = 0"
definition LOG_WARN :: nat where "LOG_WARN = 1"
definition LOG_INFO :: nat where "LOG_INFO = 2"
definition LOG_MORE_INFO :: nat where "LOG_MORE_INFO = 3"
definition LOG_DEBUG :: nat where "LOG_DEBUG = 4"

definition loglevel :: nat where "loglevel = 1"

definition log :: "nat \<Rightarrow> string \<Rightarrow> gstate \<Rightarrow> gstate" where
  "log level message st =
     (if loglevel \<ge> level then st\<lparr>stream := stream st @ [message]\<rparr> else st)"

subsection \<open>Auxiliary functions of the source\<close>

text \<open>\<^verbatim>\<open>_type_func(obj)\<close>: \<^verbatim>\<open>obj.__class__\<close>.\<close>

fun class_of :: "inst \<Rightarrow> klass" where
  "class_of (ClassModelI c vals orig) = DynClass c"
| "class_of (ListClassModelI k i oc m) = k"
| "class_of (GenericTraitI ts vals orig il isd) = GenericTraitK"

fun type_func :: "pyval \<Rightarrow> pytype" where
  "type_func PNone = NoneType"
| "type_func (PInt n) = IntType"
| "type_func (PStr s) = StrType"
| "type_func (PList xs) = ListType"
| "type_func (PTraitList xs) = TraitListObjectType"
| "type_func (PDict kvs) = DictType"
| "type_func (PObj n kvs) = UserClass n"
| "type_func (POpaque n) = UserClass n"
| "type_func (PModel i) = ModelType (class_of i)"

text \<open>The \<^verbatim>\<open>__name__\<close> of a type.\<close>

fun klass_name :: "gstate \<Rightarrow> klass \<Rightarrow> string" where
  "klass_name st GenericTraitK = ''GenericTrait''"
| "klass_name st ListClassModelK = ''ListClassModel''"
| "klass_name st (DynClass c) = cname (classes st ! c)"

fun type_name :: "gstate \<Rightarrow> pytype \<Rightarrow> string" where
  "type_name st NoneType = ''NoneType''"
| "type_name st IntType = ''int''"
| "type_name st StrType = ''str''"
| "type_name st ListType = ''list''"
| "type_name st TraitListObjectType = ''TraitListObject''"
| "type_name st DictType = ''dict''"
| "type_name st (UserClass n) = n"
| "type_name st (ModelType k) = klass_name st k"

text \<open>
  \<^verbatim>\<open>t in _registered_base_types\<close> and \<^verbatim>\<open>_registered_base_types[t]\<close>, for the base
  types of the value universe (\<^verbatim>\<open>_base_types_to_trait\<close>: \<^verbatim>\<open>int : Int\<close>,
  \<^verbatim>\<open>str : CStr\<close>, \<^verbatim>\<open>type(None) : Generic\<close>).
\<close>

fun in_registered_base_types :: "pytype \<Rightarrow> bool" where
  "in_registered_base_types NoneType = True"
| "in_registered_base_types IntType = True"
| "in_registered_base_types StrType = True"
| "in_registered_base_types t = False"

fun registered_base_types :: "pytype \<Rightarrow> trait option" where
  "registered_base_types NoneType = Some Generic_t"
| "registered_base_types IntType = Some Int_t"
| "registered_base_types StrType = Some CStr_t"
| "registered_base_types t = None"

text \<open>
  \<^verbatim>\<open>_is_list(obj)\<close>: \<^verbatim>\<open>hasattr(obj, "__add__") and hasattr(obj, "__len__")\<close>. A string
  has both; an \<^verbatim>\<open>int\<close> has no \<^verbatim>\<open>__len__\<close>, a \<^verbatim>\<open>dict\<close> no \<^verbatim>\<open>__add__\<close>;
  \<^verbatim>\<open>ListClassModel\<close> defines \<^verbatim>\<open>__add__\<close> but no \<^verbatim>\<open>__len__\<close>.
\<close>

fun is_list :: "pyval \<Rightarrow> bool" where
  "is_list (PList xs) = True"
| "is_list (PTraitList xs) = True"
| "is_list (PStr s) = True"
| "is_list v = False"

text \<open>The elements a sequence yields when iterated, and its length.\<close>

fun iter :: "pyval \<Rightarrow> pyval list" where
  "iter (PList xs) = xs"
| "iter (PTraitList xs) = xs"
| "iter (PStr s) = map (\<lambda>c. PStr [c]) s"
| "iter v = []"

text \<open>
  \<^verbatim>\<open>vars(obj)\<close>: the attribute bag, \<open>None\<close> where Python raises \<^verbatim>\<open>TypeError\<close>. The bag of
  a model instance holds the trait values assigned on it and its private attributes; the
  private ones (names starting with an underscore) are skipped by every reader of the
  source, so only \<^verbatim>\<open>_matrix\<close> is listed.
\<close>

fun vars :: "pyval \<Rightarrow> (string \<times> pyval) list option" where
  "vars (PObj n kvs) = Some kvs"
| "vars (PModel (ClassModelI c vals orig)) = Some vals"
| "vars (PModel (ListClassModelI k i oc m)) = Some [(''_matrix'', PTraitList m)]"
| "vars (PModel (GenericTraitI ts vals orig il isd)) = Some vals"
| "vars v = None"

definition startswith_underscore :: "string \<Rightarrow> bool" where
  "startswith_underscore key = (case key of [] \<Rightarrow> False | c # cs \<Rightarrow> c = CHR ''_'')"

text \<open>Python's \<^verbatim>\<open>str(i)\<close> for an index, and \<^verbatim>\<open>'pos' + str(i)\<close>.\<close>

definition digit :: "nat \<Rightarrow> char" where
  "digit d = char_of (of_char CHR ''0'' + d)"

fun str_nat :: "nat \<Rightarrow> string" where
  "str_nat n = (if n < 10 then [digit n] else str_nat (n div 10) @ [digit (n mod 10)])"

definition pos_key :: "nat \<Rightarrow> string" where
  "pos_key i = ''pos'' @ str_nat i"

text \<open>
  A dictionary update \<^verbatim>\<open>d[k] = v\<close>: an existing key keeps its place in the iteration
  order, a new key is added at the end. \<^verbatim>\<open>d.update(e)\<close> does this for every item.
\<close>

fun dict_set :: "(string \<times> 'a) list \<Rightarrow> string \<Rightarrow> 'a \<Rightarrow> (string \<times> 'a) list" where
  "dict_set [] k v = [(k, v)]"
| "dict_set ((k', v') # d) k v = (if k' = k then (k, v) # d else (k', v') # dict_set d k v)"

fun dict_del :: "(string \<times> 'a) list \<Rightarrow> string \<Rightarrow> (string \<times> 'a) list" where
  "dict_del [] k = []"
| "dict_del ((k', v') # d) k = (if k' = k then dict_del d k else (k', v') # dict_del d k)"

fun dict_update :: "(string \<times> 'a) list \<Rightarrow> (string \<times> 'a) list \<Rightarrow> (string \<times> 'a) list" where
  "dict_update d [] = d"
| "dict_update d ((k, v) # e) = dict_update (dict_set d k v) e"


subsection \<open>The Traits library operations the program calls\<close>

text \<open>
  Python's \<^verbatim>\<open>str(value)\<close>. It is exact on \<^verbatim>\<open>None\<close>, integers and strings; for a
  container it gives the elements' representations (string escapes left out), and for an
  object only a fixed placeholder, since the real text holds a memory address.
\<close>

definition str_int :: "int \<Rightarrow> string" where
  "str_int i = (if i < 0 then CHR ''-'' # str_nat (nat (- i)) else str_nat (nat i))"

fun join :: "string \<Rightarrow> string list \<Rightarrow> string" where
  "join sep [] = []"
| "join sep [x] = x"
| "join sep (x # y # ys) = x @ sep @ join sep (y # ys)"

fun py_repr :: "pyval \<Rightarrow> string" where
  "py_repr PNone = ''None''"
| "py_repr (PInt i) = str_int i"
| "py_repr (PStr s) = [CHR 0x27] @ s @ [CHR 0x27]"
| "py_repr (PList xs) = ''['' @ join '', '' (map py_repr xs) @ '']''"
| "py_repr (PTraitList xs) = ''['' @ join '', '' (map py_repr xs) @ '']''"
| "py_repr (PDict kvs) =
     ''{'' @ join '', '' (map (\<lambda>(k, v). [CHR 0x27] @ k @ [CHR 0x27] @ '': '' @ py_repr v) kvs) @ ''}''"
| "py_repr (PObj n kvs) = ''<object>''"
| "py_repr (POpaque n) = ''<object>''"
| "py_repr (PModel i) = ''<object>''"

definition py_str :: "pyval \<Rightarrow> string" where
  "py_str v = (case v of PStr s \<Rightarrow> s | _ \<Rightarrow> py_repr v)"

text \<open>\<^verbatim>\<open>isinstance(value, klass)\<close> for a class of model instances.\<close>

fun isinstance :: "pyval \<Rightarrow> klass \<Rightarrow> bool" where
  "isinstance (PModel (ListClassModelI k i oc m)) ListClassModelK = True"
| "isinstance (PModel i) k = (class_of i = k)"
| "isinstance v k = False"

text \<open>
  Validation of a value against a trait, as the library documents it; the result is the
  value the trait stores, \<open>None\<close> stands for the library's \<^verbatim>\<open>TraitError\<close>.
  \<^item> \<^verbatim>\<open>Int\<close> accepts integers only.
  \<^item> \<^verbatim>\<open>CStr\<close> casts any value with \<^verbatim>\<open>str\<close>.
  \<^item> \<^verbatim>\<open>Generic\<close> and \<^verbatim>\<open>Any\<close> accept any value.
  \<^item> \<^verbatim>\<open>List(t)\<close> accepts a list whose items all have type \<^verbatim>\<open>t\<close> and stores a
    \<^verbatim>\<open>TraitListObject\<close>; a string is not a list.
  \<^item> \<^verbatim>\<open>Instance(klass)\<close> accepts \<^verbatim>\<open>None\<close> and the instances of \<^verbatim>\<open>klass\<close>.
\<close>

fun validate_list :: "pytype \<Rightarrow> pyval \<Rightarrow> pyval option" where
  "validate_list t (PList xs) =
     (if list_all (\<lambda>x. type_func x = t) xs then Some (PTraitList xs) else None)"
| "validate_list t (PTraitList xs) =
     (if list_all (\<lambda>x. type_func x = t) xs then Some (PTraitList xs) else None)"
| "validate_list t v = None"

fun validate :: "trait \<Rightarrow> pyval \<Rightarrow> pyval option" where
  "validate Int_t v = (case v of PInt n \<Rightarrow> Some v | _ \<Rightarrow> None)"
| "validate CStr_t v = Some (PStr (py_str v))"
| "validate Generic_t v = Some v"
| "validate Any_t v = Some v"
| "validate ListOfStr v = validate_list StrType v"
| "validate (List_t t) v = validate_list t v"
| "validate (Instance_t k args) v =
     (if v = PNone \<or> isinstance v k then Some v else None)"

text \<open>
  \<^verbatim>\<open>self.validate_trait(key, val)\<close> and the assignment \<^verbatim>\<open>setattr(self, key, val)\<close>
  validate against the trait declared for \<open>key\<close>; a name without a declared trait takes
  any value.
\<close>

definition validate_trait :: "(string \<times> trait) list \<Rightarrow> string \<Rightarrow> pyval \<Rightarrow> pyval option" where
  "validate_trait traits key val =
     (case map_of traits key of None \<Rightarrow> Some val | Some t \<Rightarrow> validate t val)"

text \<open>
  \<^verbatim>\<open>self.set(**traits)\<close> (the library's \<^verbatim>\<open>trait_set\<close>): one \<^verbatim>\<open>setattr\<close> per item, in
  the iteration order of the dictionary. The first rejected value raises
  \<^verbatim>\<open>TraitError\<close>; the assignments made before it stay. The result is the raised error,
  if any, and the values of the instance afterwards.
\<close>

fun set_traits ::
  "(string \<times> trait) list \<Rightarrow> (string \<times> pyval) list \<Rightarrow> (string \<times> pyval) list
     \<Rightarrow> error option \<times> (string \<times> pyval) list" where
  "set_traits traits vals [] = (None, vals)"
| "set_traits traits vals ((name, value) # rest) =
     (case validate_trait traits name value of
        None \<Rightarrow> (Some (TraitError name), vals)
      | Some x \<Rightarrow> set_traits traits (dict_set vals name x) rest)"

text \<open>
  \<^verbatim>\<open>cls.add_class_trait(key, trait)\<close> raises \<^verbatim>\<open>TraitError\<close> when the class already
  defines \<open>key\<close>; every subclass of \<^verbatim>\<open>ClassModel\<close> inherits the public names
  \<^verbatim>\<open>Templates\<close>, \<^verbatim>\<open>trait_added\<close> and \<^verbatim>\<open>trait_modified\<close>.
\<close>

definition inherited_class_traits :: "string list" where
  "inherited_class_traits = [''Templates'', ''trait_added'', ''trait_modified'']"

definition add_class_trait :: "nat \<Rightarrow> string \<Rightarrow> trait \<Rightarrow> gstate \<Rightarrow> unit res" where
  "add_class_trait c key t st =
     (let k = classes st ! c in
      if key \<in> set inherited_class_traits \<or> map_of (class_traits k) key \<noteq> None
      then (Inl (TraitError key), st)
      else (Inr (), st\<lparr>classes := (classes st)[c := k\<lparr>class_traits := class_traits k @ [(key, t)]\<rparr>]\<rparr>))"

subsection \<open>Type handling: the registries\<close>

text \<open>
  \<^verbatim>\<open>get_obj_t(obj_t)\<close>: \<^verbatim>\<open>_api_types_to_trait.get(cls_name) or
  __dynamically_created_classes.get(cls_name)\<close>. The registries hold class objects,
  which are true in a Boolean context.
\<close>

definition get_obj_t :: "gstate \<Rightarrow> pytype \<Rightarrow> nat option" where
  "get_obj_t st obj_t =
     (let cls_name = type_name st obj_t in
      case api_types_to_trait st cls_name of
        Some t \<Rightarrow> Some t
      | None \<Rightarrow> dynamically_created_classes st cls_name)"

text \<open>\<^verbatim>\<open>register_api_type_handler(**types)\<close>: \<^verbatim>\<open>_api_types_to_trait.update(types)\<close>.\<close>

definition register_api_type_handler :: "(string \<rightharpoonup> nat) \<Rightarrow> gstate \<Rightarrow> gstate" where
  "register_api_type_handler types st =
     st\<lparr>api_types_to_trait := api_types_to_trait st ++ types\<rparr>"

definition getClassListOf :: "gstate \<Rightarrow> pytype \<Rightarrow> nat option" where
  "getClassListOf st innerClass =
     (let name = ''ListOf'' @ type_name st innerClass in dynamically_created_classes st name)"

definition setClassListOf :: "pytype \<Rightarrow> nat \<Rightarrow> gstate \<Rightarrow> gstate" where
  "setClassListOf innerClass new_class st =
     (let name = ''ListOf'' @ type_name st innerClass in
      st\<lparr>dynamically_created_classes := (dynamically_created_classes st)(name \<mapsto> new_class)\<rparr>)"

text \<open>
  \<^verbatim>\<open>_create_ListClass\<close>: \<^verbatim>\<open>type(name, (ListClassModel,), ...)\<close> makes a new class object,
  which is then stored under \<open>name\<close>.
\<close>

definition create_ListClass :: "string \<Rightarrow> nat \<Rightarrow> pytype option \<Rightarrow> gstate \<Rightarrow> nat \<times> gstate" where
  "create_ListClass name innerClass orig st =
     (let listClass = length (classes st);
          st1 = st\<lparr>classes := classes st @
                  [\<lparr>cname = name, is_list_class = True, class_traits = [], templates = [],
                    inner_type = Some (ClassInner innerClass), orig_class = orig\<rparr>]\<rparr>
      in (listClass,
          st1\<lparr>dynamically_created_classes :=
                (dynamically_created_classes st1)(name \<mapsto> listClass)\<rparr>))"

definition get_or_create_ClassListOf :: "nat \<Rightarrow> pytype option \<Rightarrow> gstate \<Rightarrow> nat \<times> gstate" where
  "get_or_create_ClassListOf innerClass orig st =
     (let name = ''ListOf'' @ cname (classes st ! innerClass) in
      case dynamically_created_classes st name of
        Some c \<Rightarrow> (c, st)
      | None \<Rightarrow> create_ListClass name innerClass orig st)"


subsection \<open>Exceptions and the call depth\<close>

text \<open>
  A call returns a value or raises, and leaves a state either way (a handler that catches
  the exception continues from the state the raising code left). \<open>bind_res\<close> runs the
  rest of a function body after a call that returned and propagates its exception
  otherwise.

  The interpreter bounds the depth of nested calls and raises \<^verbatim>\<open>RuntimeError\<close> when the
  bound is passed. The functions through which every recursion of the program passes
  carry the number of nested calls still available, and raise that error at zero.
\<close>

fun bind_res :: "'a res \<Rightarrow> ('a \<Rightarrow> gstate \<Rightarrow> 'b res) \<Rightarrow> 'b res" where
  "bind_res (Inl e, st) f = (Inl e, st)"
| "bind_res (Inr x, st) f = f x st"

definition depth_exceeded :: error where
  "depth_exceeded = RuntimeError ''maximum recursion depth exceeded''"

subsection \<open>Helpers of the model classes\<close>

definition hasattr_dict :: "pyval \<Rightarrow> bool" where
  "hasattr_dict obj = (vars obj \<noteq> None)"

text \<open>\<^verbatim>\<open>dict(('pos'+str(i), value) for i, value in enumerate(obj))\<close>.\<close>

definition enumerate_pos :: "pyval list \<Rightarrow> (string \<times> pyval) list" where
  "enumerate_pos xs = map (\<lambda>(i, value). (pos_key i, value)) (enumerate 0 xs)"

text \<open>
  The function \<^verbatim>\<open>add_trait_f\<close> handed to \<^verbatim>\<open>_create_get_traits\<close>: the
  \<^verbatim>\<open>add_class_trait\<close> of a class being created, or the \<^verbatim>\<open>add_trait\<close> of a
  \<^verbatim>\<open>GenericTrait\<close> instance being initialised (which replaces a trait of the same
  name). The traits of the instance are threaded as a value.
\<close>

datatype target = ClassTarget nat | InstanceTarget

fun add_trait_f ::
  "target \<Rightarrow> string \<Rightarrow> trait \<Rightarrow> (string \<times> trait) list \<Rightarrow> gstate \<Rightarrow> (string \<times> trait) list res" where
  "add_trait_f (ClassTarget c) key t traits st =
     bind_res (add_class_trait c key t st) (\<lambda>u st1. (Inr traits, st1))"
| "add_trait_f InstanceTarget key t traits st = (Inr (dict_set traits key t), st)"

text \<open>
  \<^verbatim>\<open>del self.__class_traits__[key]; self.add_class_trait(key, iface)\<close> of
  \<^verbatim>\<open>set_init\<close>.
\<close>

definition replace_class_trait :: "nat \<Rightarrow> string \<Rightarrow> trait \<Rightarrow> gstate \<Rightarrow> unit res" where
  "replace_class_trait c key iface st =
     (let k = classes st ! c;
          st1 = st\<lparr>classes := (classes st)[c := k\<lparr>class_traits := dict_del (class_traits k) key\<rparr>]\<rparr>
      in add_class_trait c key iface st1)"

text \<open>The class attributes \<^verbatim>\<open>_inner_type\<close> and \<^verbatim>\<open>_orig_class\<close> seen from an instance.\<close>

fun class_inner_type :: "gstate \<Rightarrow> klass \<Rightarrow> inner option" where
  "class_inner_type st (DynClass c) = inner_type (classes st ! c)"
| "class_inner_type st k = None"

fun class_orig_class :: "gstate \<Rightarrow> klass \<Rightarrow> pytype option" where
  "class_orig_class st (DynClass c) = orig_class (classes st ! c)"
| "class_orig_class st k = None"

definition no_inner_type :: error where
  "no_inner_type =
     TraitError (''Lists must have an inner type specified, in the least case ''
                 @ [CHR 0x27] @ ''Any'' @ [CHR 0x27])"

text \<open>
  The trait of the items of \<^verbatim>\<open>_matrix\<close>:
  \<^verbatim>\<open>t_edit = Any if trait_t == Any else Instance(trait_t, ())\<close>, and
  \<^verbatim>\<open>self._matrix.append(obj)\<close>, which the library validates against it.
\<close>

fun t_edit :: "inner \<Rightarrow> trait" where
  "t_edit AnyInner = Any_t"
| "t_edit (ClassInner c) = Instance_t (DynClass c) True"

definition matrix_append :: "inner \<Rightarrow> pyval list \<Rightarrow> pyval \<Rightarrow> error + pyval list" where
  "matrix_append trait_t matrix obj =
     (case validate (t_edit trait_t) obj of
        None \<Rightarrow> Inl (TraitError ''_matrix'')
      | Some x \<Rightarrow> Inr (matrix @ [x]))"

fun isinstance_inner :: "pyval \<Rightarrow> inner \<Rightarrow> bool" where
  "isinstance_inner elem AnyInner = False"
| "isinstance_inner elem (ClassInner c) = isinstance elem (DynClass c)"

definition invalid_keys :: "string list" where
  "invalid_keys = [''Templates'']"

definition new_model_class :: "string \<Rightarrow> cls" where
  "new_model_class name =
     \<lparr>cname = name, is_list_class = False, class_traits = [], templates = [],
      inner_type = None, orig_class = None\<rparr>"

subsection \<open>Lookup and dynamic creation of models\<close>

text \<open>
  The functions of the source call each other in cycles, and every cycle passes through
  \<^verbatim>\<open>get_or_create_trait_for\<close> or through the call of a model class
  (\<^verbatim>\<open>trait_t(obj)\<close>, \<^verbatim>\<open>newModel(obj)\<close>, \<^verbatim>\<open>listClass(obj)\<close>, \<^verbatim>\<open>tlistc(val)\<close>). Each
  function below takes these two as its first arguments, \<open>trait_for\<close> and \<open>call\<close>; the
  two are defined last, by recursion on the call depth still available.
\<close>

type_synonym trait_for_fn = "gstate \<Rightarrow> pyval \<Rightarrow> (trait \<times> pyval) res"
type_synonym call_fn = "gstate \<Rightarrow> nat \<Rightarrow> pyval \<Rightarrow> inst res"

text \<open>
  \<^verbatim>\<open>GenericTrait._create_get_traits(add_trait_f, obj_props)\<close>. In the branch of the
  base types the value kept is \<^verbatim>\<open>value if value is not None else trait_t.default_value\<close>;
  the only base type of \<^verbatim>\<open>None\<close> is \<^verbatim>\<open>Generic\<close>, whose default is \<^verbatim>\<open>None\<close>.
\<close>

fun create_get_traits ::
  "trait_for_fn \<Rightarrow> gstate \<Rightarrow> target \<Rightarrow> (string \<times> pyval) list \<Rightarrow> (string \<times> trait) list
     \<Rightarrow> (string \<times> pyval) list \<Rightarrow> ((string \<times> trait) list \<times> (string \<times> pyval) list) res" where
  "create_get_traits trait_for st tgt [] traits traits_ed = (Inr (traits, traits_ed), st)"
| "create_get_traits trait_for st tgt ((key, value) # rest) traits traits_ed =
     (if startswith_underscore key then create_get_traits trait_for st tgt rest traits traits_ed
      else
        (let t = type_func value;
             trait_t = get_obj_t st t
         in
         if trait_t \<noteq> None then
           bind_res (trait_for st value)
             (\<lambda>(t_inter, t_obj) st1.
                bind_res (add_trait_f tgt key t_inter traits st1)
                  (\<lambda>traits1 st2.
                     create_get_traits trait_for st2 tgt rest traits1
                       (dict_set traits_ed key t_obj)))
         else
           (case registered_base_types t of
              Some base_t \<Rightarrow>
                bind_res (add_trait_f tgt key base_t traits st)
                  (\<lambda>traits1 st1.
                     create_get_traits trait_for st1 tgt rest traits1
                       (dict_set traits_ed key value))
            | None \<Rightarrow>
                bind_res (trait_for st value)
                  (\<lambda>(t_inter, t_obj) st1.
                     bind_res (add_trait_f tgt key t_inter traits st1)
                       (\<lambda>traits1 st2.
                          create_get_traits trait_for st2 tgt rest traits1
                            (dict_set traits_ed key t_obj))))))"

text \<open>
  \<^verbatim>\<open>GenericTrait.__init__(obj, as_list)\<close>. When \<^verbatim>\<open>vars(obj)\<close> raises, \<^verbatim>\<open>obj\<close> itself
  is taken as the properties, and \<^verbatim>\<open>obj_props.items()\<close> raises \<^verbatim>\<open>AttributeError\<close> for
  whatever is not a dictionary.
\<close>

definition GenericTrait_init :: "trait_for_fn \<Rightarrow> gstate \<Rightarrow> pyval \<Rightarrow> bool \<Rightarrow> inst res" where
  "GenericTrait_init trait_for st obj as_list =
     (case (if as_list then Inr (enumerate_pos (iter obj), None, False)
            else
              (case vars obj of
                 Some obj_props \<Rightarrow> Inr (obj_props, Some obj, False)
               | None \<Rightarrow>
                   (case obj of
                      PDict kvs \<Rightarrow> Inr (kvs, None, True)
                    | _ \<Rightarrow> Inl (AttributeError ''items''))))
      of
        Inl e \<Rightarrow> (Inl e, st)
      | Inr (obj_props, orig, isd) \<Rightarrow>
          bind_res (create_get_traits trait_for st InstanceTarget obj_props [] [])
            (\<lambda>(traits, new_traits) st1.
               case set_traits traits [] new_traits of
                 (Some e, vals) \<Rightarrow> (Inl e, st1)
               | (None, vals) \<Rightarrow> (Inr (GenericTraitI traits vals orig as_list isd), st1)))"

text \<open>
  \<^verbatim>\<open>_create_ModelClass(name, obj)\<close>: the new class object exists from the call of
  \<^verbatim>\<open>type\<close> on, its traits are added by \<^verbatim>\<open>_create_get_traits\<close>, and only then is it
  stored in \<^verbatim>\<open>__dynamically_created_classes\<close>.
\<close>

definition create_ModelClass :: "trait_for_fn \<Rightarrow> gstate \<Rightarrow> string \<Rightarrow> pyval \<Rightarrow> nat res" where
  "create_ModelClass trait_for st name obj =
     (case vars obj of
        None \<Rightarrow> (Inl (TypeError ''vars() argument must have __dict__ attribute''), st)
      | Some obj_props \<Rightarrow>
          (let newClassModel = length (classes st);
               st1 = st\<lparr>classes := classes st @ [new_model_class name]\<rparr>
           in
           bind_res (create_get_traits trait_for st1 (ClassTarget newClassModel) obj_props [] [])
             (\<lambda>r st2.
                (Inr newClassModel,
                 st2\<lparr>dynamically_created_classes :=
                       (dynamically_created_classes st2)(name \<mapsto> newClassModel)\<rparr>))))"

definition get_or_create_ModelClass_for_obj :: "trait_for_fn \<Rightarrow> gstate \<Rightarrow> pyval \<Rightarrow> nat res" where
  "get_or_create_ModelClass_for_obj trait_for st obj =
     (let t_name = type_name st (type_func obj) in
      case dynamically_created_classes st t_name of
        Some c \<Rightarrow> (Inr c, st)
      | None \<Rightarrow> create_ModelClass trait_for st t_name obj)"

text \<open>\<^verbatim>\<open>create_list_trait(obj)\<close>.\<close>

definition create_list_trait ::
  "trait_for_fn \<Rightarrow> call_fn \<Rightarrow> gstate \<Rightarrow> pyval \<Rightarrow> (trait \<times> pyval) res" where
  "create_list_trait trait_for call st obj =
     (let types = remdups (map type_func (iter obj));
          t_count = length types
      in
      if t_count = 1 then
        (let t = types ! 0 in
         if in_registered_base_types t then
           (if t = StrType then (Inr (ListOfStr, obj), st)
            else (Inr (List_t t, obj), st))
         else
           bind_res
             (case get_obj_t st t of
                Some model \<Rightarrow> (Inr (Some model), st)
              | None \<Rightarrow>
                  (if hasattr_dict (iter obj ! 0) then
                     bind_res (get_or_create_ModelClass_for_obj trait_for st (iter obj ! 0))
                       (\<lambda>model st1. (Inr (Some model), st1))
                   else (Inr None, st)))
             (\<lambda>model st1.
                case model of
                  None \<Rightarrow>
                    bind_res (GenericTrait_init trait_for st1 obj True)
                      (\<lambda>t_obj st2. (Inr (Instance_t GenericTraitK False, PModel t_obj), st2))
                | Some m \<Rightarrow>
                    (case get_or_create_ClassListOf m (Some (type_func (iter obj ! 0))) st1 of
                       (listClass, st2) \<Rightarrow>
                         bind_res (call st2 listClass obj)
                           (\<lambda>t_obj st3.
                              (Inr (Instance_t ListClassModelK False, PModel t_obj), st3)))))
      else
        bind_res (GenericTrait_init trait_for st obj True)
          (\<lambda>t_obj st1. (Inr (Instance_t GenericTraitK False, PModel t_obj), st1)))"

text \<open>\<^verbatim>\<open>create_generic_trait(obj)\<close>.\<close>

definition create_generic_trait ::
  "trait_for_fn \<Rightarrow> call_fn \<Rightarrow> gstate \<Rightarrow> pyval \<Rightarrow> (trait \<times> pyval) res" where
  "create_generic_trait trait_for call st obj =
     (if is_list obj then create_list_trait trait_for call st obj
      else
        (case vars obj of
           None \<Rightarrow>
             bind_res (GenericTrait_init trait_for st obj False)
               (\<lambda>trait_obj st1. (Inr (Instance_t GenericTraitK True, PModel trait_obj), st1))
         | Some obj_props \<Rightarrow>
             bind_res (get_or_create_ModelClass_for_obj trait_for st obj)
               (\<lambda>newModel st1.
                  bind_res (call st1 newModel obj)
                    (\<lambda>trait_obj st2.
                       (Inr (Instance_t (DynClass newModel) True, PModel trait_obj), st2)))))"

text \<open>
  \<^verbatim>\<open>ClassModel.set_init(traits)\<close>: the loop over \<^verbatim>\<open>traits.iteritems()\<close>, which collects
  \<^verbatim>\<open>mod_traits\<close>. \<open>set_init_convert\<close> is the first block of the loop body (the
  \<^verbatim>\<open>if type(val) not in _registered_base_types and not _is_list(val)\<close>): it gives the
  value to validate, or nothing where the source does \<^verbatim>\<open>continue\<close>. The registries hold classes only, so \<^verbatim>\<open>isinstance(t, List)\<close> is
  false for the \<^verbatim>\<open>t\<close> that \<^verbatim>\<open>get_obj_t\<close> returns. \<^verbatim>\<open>except Exception\<close> catches what
  the \<^verbatim>\<open>try\<close> block raises, the \<^verbatim>\<open>KeyError\<close> of \<^verbatim>\<open>self.__class_traits__[key]\<close>
  included. What the handler of \<^verbatim>\<open>TraitError\<close> raises itself is not caught.
\<close>

definition set_init_convert ::
  "trait_for_fn \<Rightarrow> gstate \<Rightarrow> nat \<Rightarrow> string \<Rightarrow> pyval \<Rightarrow> pyval option \<times> gstate" where
  "set_init_convert trait_for st c key val =
     (if \<not> in_registered_base_types (type_func val) \<and> \<not> is_list val then
        (case trait_for st val of
           (Inl e, st1) \<Rightarrow> (None, log LOG_ERROR ''Could not create a trait'' st1)
         | (Inr (iface, val1), st1) \<Rightarrow>
             (case map_of (class_traits (classes st1 ! c)) key of
                None \<Rightarrow> (None, log LOG_ERROR ''Could not create a trait'' st1)
              | Some tr \<Rightarrow>
                  (if tr = Generic_t then
                     (case replace_class_trait c key iface st1 of
                        (Inl e, st2) \<Rightarrow> (None, log LOG_ERROR ''Could not create a trait'' st2)
                      | (Inr u, st2) \<Rightarrow> (Some val1, st2))
                   else (Some val1, st1))))
      else (Some val, st))"

fun set_init_loop ::
  "trait_for_fn \<Rightarrow> call_fn \<Rightarrow> gstate \<Rightarrow> nat \<Rightarrow> (string \<times> pyval) list \<Rightarrow> (string \<times> pyval) list
     \<Rightarrow> (string \<times> pyval) list res" where
  "set_init_loop trait_for call st c [] mod_traits = (Inr mod_traits, st)"
| "set_init_loop trait_for call st c ((key, val) # rest) mod_traits =
     (if startswith_underscore key \<or> key \<in> set invalid_keys \<or> val = PNone
      then set_init_loop trait_for call st c rest mod_traits
      else
        (case set_init_convert trait_for st c key val of
           (None, st1) \<Rightarrow> set_init_loop trait_for call st1 c rest mod_traits
         | (Some v, st1) \<Rightarrow>
             (case validate_trait (class_traits (classes st1 ! c)) key v of
                Some x \<Rightarrow> set_init_loop trait_for call st1 c rest (dict_set mod_traits key v)
              | None \<Rightarrow>
                  (if is_list v then
                     (if length (iter v) \<noteq> 0 then
                        (let subt = type_func (iter v ! 0) in
                         case getClassListOf st1 subt of
                           None \<Rightarrow> (Inl (TypeError ''NoneType object is not callable''), st1)
                         | Some tlistc \<Rightarrow>
                             bind_res (call st1 tlistc v)
                               (\<lambda>obj st2.
                                  set_init_loop trait_for call st2 c rest
                                    (dict_set mod_traits key (PModel obj))))
                      else set_init_loop trait_for call st1 c rest mod_traits)
                   else set_init_loop trait_for call
                          (log LOG_ERROR (''TraitError: '' @ key) st1) c rest mod_traits))))"

text \<open>
  \<^verbatim>\<open>set_init\<close> ends with \<^verbatim>\<open>self.set(False, **mod_traits)\<close>; \<^verbatim>\<open>traits.iteritems()\<close>
  raises \<^verbatim>\<open>AttributeError\<close> for whatever is not a dictionary.
\<close>

definition set_init ::
  "trait_for_fn \<Rightarrow> call_fn \<Rightarrow> gstate \<Rightarrow> nat \<Rightarrow> pyval \<Rightarrow> (string \<times> pyval) list res" where
  "set_init trait_for call st c traits =
     (case traits of
        PDict kvs \<Rightarrow>
          bind_res (set_init_loop trait_for call st c kvs [])
            (\<lambda>mod_traits st1.
               case set_traits (class_traits (classes st1 ! c)) [] mod_traits of
                 (Some e, vals) \<Rightarrow> (Inl e, st1)
               | (None, vals) \<Rightarrow> (Inr vals, st1))
      | _ \<Rightarrow> (Inl (AttributeError ''iteritems''), st))"

text \<open>\<^verbatim>\<open>ClassModel.__init__(obj)\<close> for an instance of the class \<open>c\<close>.\<close>

definition ClassModel_init :: "trait_for_fn \<Rightarrow> call_fn \<Rightarrow> gstate \<Rightarrow> nat \<Rightarrow> pyval \<Rightarrow> inst res" where
  "ClassModel_init trait_for call st c obj =
     (if obj \<noteq> PNone then
        (case vars obj of
           None \<Rightarrow>
             bind_res (set_init trait_for call st c obj)
               (\<lambda>vals st1. (Inr (ClassModelI c vals None), st1))
         | Some v \<Rightarrow>
             bind_res (set_init trait_for call st c (PDict v))
               (\<lambda>vals st1. (Inr (ClassModelI c vals (Some obj)), st1)))
      else (Inr (ClassModelI c [] None), st))"

text \<open>
  \<^verbatim>\<open>ListClassModel.append(obj)\<close> is \<^verbatim>\<open>self._matrix.append(obj)\<close>, and
  \<^verbatim>\<open>__add__(other)\<close> is \<^verbatim>\<open>self._matrix += other\<close>, which returns nothing. The library
  validates the new items against the item trait and extends the list in place only when
  all of them pass; an operand without a length is a \<^verbatim>\<open>TypeError\<close>.
\<close>

fun ListClassModel_append :: "inst \<Rightarrow> pyval \<Rightarrow> error + inst" where
  "ListClassModel_append (ListClassModelI k trait_t oc matrix) obj =
     (case matrix_append trait_t matrix obj of
        Inl e \<Rightarrow> Inl e
      | Inr matrix1 \<Rightarrow> Inr (ListClassModelI k trait_t oc matrix1))"
| "ListClassModel_append i obj = Inl (AttributeError ''append'')"

fun validate_items :: "trait \<Rightarrow> pyval list \<Rightarrow> pyval list option" where
  "validate_items t [] = Some []"
| "validate_items t (x # xs) =
     (case validate t x of
        None \<Rightarrow> None
      | Some y \<Rightarrow> (case validate_items t xs of None \<Rightarrow> None | Some ys \<Rightarrow> Some (y # ys)))"

text \<open>
  The items of an operand that has a length and can be iterated; a dictionary yields its
  keys. A \<^verbatim>\<open>ListClassModel\<close> has \<^verbatim>\<open>__iter__\<close> but no \<^verbatim>\<open>__len__\<close>.
\<close>

fun operand_items :: "pyval \<Rightarrow> pyval list option" where
  "operand_items (PList xs) = Some xs"
| "operand_items (PTraitList xs) = Some xs"
| "operand_items (PStr s) = Some (map (\<lambda>c. PStr [c]) s)"
| "operand_items (PDict kvs) = Some (map (\<lambda>(k, v). PStr k) kvs)"
| "operand_items v = None"

fun ListClassModel_add :: "inst \<Rightarrow> pyval \<Rightarrow> error + (pyval \<times> inst)" where
  "ListClassModel_add (ListClassModelI k trait_t oc matrix) other =
     (case operand_items other of
        None \<Rightarrow> Inl (TypeError ''list.extend() argument must be iterable'')
      | Some xs \<Rightarrow>
          (case validate_items (t_edit trait_t) xs of
             None \<Rightarrow> Inl (TraitError ''_matrix'')
           | Some ys \<Rightarrow> Inr (PNone, ListClassModelI k trait_t oc (matrix @ ys))))"
| "ListClassModel_add i other = Inl (AttributeError ''__add__'')"

fun ListClassModel_init_loop ::
  "call_fn \<Rightarrow> gstate \<Rightarrow> inner \<Rightarrow> pyval list \<Rightarrow> pyval list \<Rightarrow> pyval list res" where
  "ListClassModel_init_loop call st trait_t [] matrix = (Inr matrix, st)"
| "ListClassModel_init_loop call st trait_t (elem # rest) matrix =
     (if trait_t = AnyInner \<or> isinstance_inner elem trait_t then
        (case matrix_append trait_t matrix elem of
           Inl e \<Rightarrow> (Inl e, st)
         | Inr matrix1 \<Rightarrow> ListClassModel_init_loop call st trait_t rest matrix1)
      else
        (case trait_t of
           ClassInner c \<Rightarrow>
             bind_res (call st c elem)
               (\<lambda>x st1.
                  case matrix_append trait_t matrix (PModel x) of
                    Inl e \<Rightarrow> (Inl e, st1)
                  | Inr matrix1 \<Rightarrow> ListClassModel_init_loop call st1 trait_t rest matrix1)
         | AnyInner \<Rightarrow> (Inr matrix, st)))"

text \<open>
  \<^verbatim>\<open>ListClassModel.__init__(obj, trait_t, orig_class)\<close> on an instance of
  \<open>self_class\<close>.
\<close>

definition ListClassModel_init ::
  "call_fn \<Rightarrow> gstate \<Rightarrow> klass \<Rightarrow> pyval \<Rightarrow> inner option \<Rightarrow> pytype option \<Rightarrow> inst res" where
  "ListClassModel_init call st self_class obj trait_t orig_cls =
     (case (case trait_t of Some t \<Rightarrow> Some t | None \<Rightarrow> class_inner_type st self_class) of
        None \<Rightarrow> (Inl no_inner_type, st)
      | Some tt \<Rightarrow>
          (let oc = (case orig_cls of Some x \<Rightarrow> Some x | None \<Rightarrow> class_orig_class st self_class)
           in
           if obj \<noteq> PNone \<and> is_list obj then
             bind_res (ListClassModel_init_loop call st tt (iter obj) [])
               (\<lambda>matrix st1. (Inr (ListClassModelI self_class tt oc matrix), st1))
           else (Inr (ListClassModelI self_class tt oc []), st)))"

text \<open>
  The two recursive entries. \<open>call_class n st c obj\<close> is the call \<^verbatim>\<open>cls(obj)\<close> of the class
  object \<open>c\<close>: \<^verbatim>\<open>ListClassModel.__init__\<close> for a list class, \<^verbatim>\<open>ClassModel.__init__\<close>
  otherwise. \<open>get_or_create_trait_for n st obj\<close> is the function of that name; the
  trait \<^verbatim>\<open>Instance(obj, ())\<close> it gives for a model instance is taken as the trait of the
  instances of the class of \<^verbatim>\<open>obj\<close>.
\<close>

fun get_or_create_trait_for :: "nat \<Rightarrow> gstate \<Rightarrow> pyval \<Rightarrow> (trait \<times> pyval) res"
and call_class :: "nat \<Rightarrow> gstate \<Rightarrow> nat \<Rightarrow> pyval \<Rightarrow> inst res"
where
  "get_or_create_trait_for 0 st obj = (Inl depth_exceeded, st)"
| "get_or_create_trait_for (Suc n) st obj =
     (case obj of
        PModel i \<Rightarrow> (Inr (Instance_t (class_of i) True, obj), st)
      | _ \<Rightarrow>
         (case get_obj_t st (type_func obj) of
            Some trait_t \<Rightarrow>
              bind_res (call_class n st trait_t obj)
                (\<lambda>trait_obj st1. (Inr (Instance_t (DynClass trait_t) True, PModel trait_obj), st1))
          | None \<Rightarrow> create_generic_trait (get_or_create_trait_for n) (call_class n) st obj))"
| "call_class 0 st c obj = (Inl depth_exceeded, st)"
| "call_class (Suc n) st c obj =
     (if is_list_class (classes st ! c)
      then ListClassModel_init (call_class n) st (DynClass c) obj None None
      else ClassModel_init (get_or_create_trait_for n) (call_class n) st c obj)"

text \<open>\<^verbatim>\<open>get_or_create_editor_for_obj(obj)\<close>, the entry point.\<close>

definition get_or_create_editor_for_obj :: "nat \<Rightarrow> gstate \<Rightarrow> pyval \<Rightarrow> pyval res" where
  "get_or_create_editor_for_obj n st obj =
     (case obj of
        PModel i \<Rightarrow> (Inr obj, st)
      | _ \<Rightarrow> bind_res (get_or_create_trait_for n st obj) (\<lambda>(t_inter, t_obj) st1. (Inr t_obj, st1)))"


subsection \<open>Reading an instance back\<close>

text \<open>
  \<^verbatim>\<open>klass()\<close> for a class of model instances, as the default of an
  \<^verbatim>\<open>Instance(klass, ())\<close> trait and in \<^verbatim>\<open>cast_back\<close>: \<^verbatim>\<open>GenericTrait\<close> needs an
  argument, a \<^verbatim>\<open>ListClassModel\<close> an inner type.
\<close>

fun noarg_model :: "gstate \<Rightarrow> klass \<Rightarrow> error + inst" where
  "noarg_model st GenericTraitK = Inl (TypeError ''__init__() takes at least 2 arguments'')"
| "noarg_model st ListClassModelK = Inl no_inner_type"
| "noarg_model st (DynClass c) =
     (if is_list_class (classes st ! c) then
        (case inner_type (classes st ! c) of
           None \<Rightarrow> Inl no_inner_type
         | Some tt \<Rightarrow> Inr (ListClassModelI (DynClass c) tt (orig_class (classes st ! c)) []))
      else Inr (ClassModelI c [] None))"

text \<open>The default value of a trait that has not been assigned.\<close>

fun default_value :: "gstate \<Rightarrow> trait \<Rightarrow> error + pyval" where
  "default_value st Int_t = Inr (PInt 0)"
| "default_value st CStr_t = Inr (PStr [])"
| "default_value st Generic_t = Inr PNone"
| "default_value st Any_t = Inr PNone"
| "default_value st ListOfStr = Inr (PTraitList [])"
| "default_value st (List_t t) = Inr (PTraitList [])"
| "default_value st (Instance_t k args) =
     (if args then (case noarg_model st k of Inl e \<Rightarrow> Inl e | Inr i \<Rightarrow> Inr (PModel i))
      else Inr PNone)"

text \<open>
  \<^verbatim>\<open>self.get(private=is_none)\<close> (the library's \<^verbatim>\<open>trait_get\<close>): the value of every
  public trait, and of every attribute assigned without a declared trait.
\<close>

definition getattr_trait ::
  "gstate \<Rightarrow> (string \<times> trait) list \<Rightarrow> (string \<times> pyval) list \<Rightarrow> string \<Rightarrow> error + pyval" where
  "getattr_trait st traits vals name =
     (case map_of vals name of
        Some v \<Rightarrow> Inr v
      | None \<Rightarrow> (case map_of traits name of Some t \<Rightarrow> default_value st t | None \<Rightarrow> Inr PNone))"

fun get_names ::
  "gstate \<Rightarrow> (string \<times> trait) list \<Rightarrow> (string \<times> pyval) list \<Rightarrow> string list
     \<Rightarrow> error + (string \<times> pyval) list" where
  "get_names st traits vals [] = Inr []"
| "get_names st traits vals (name # names) =
     (case getattr_trait st traits vals name of
        Inl e \<Rightarrow> Inl e
      | Inr v \<Rightarrow>
          (case get_names st traits vals names of
             Inl e \<Rightarrow> Inl e
           | Inr r \<Rightarrow> Inr ((name, v) # r)))"

definition trait_get ::
  "gstate \<Rightarrow> (string \<times> trait) list \<Rightarrow> (string \<times> pyval) list \<Rightarrow> error + (string \<times> pyval) list" where
  "trait_get st traits vals =
     get_names st traits vals
       (map fst traits @ filter (\<lambda>k. map_of traits k = None) (map fst vals))"

text \<open>
  \<^verbatim>\<open>cast_to()\<close> in \<^verbatim>\<open>cast_back\<close>; \<open>None\<close> when the construction raises. And
  \<^verbatim>\<open>new_obj.__dict__.update(d)\<close>: an object without an attribute bag raises
  \<^verbatim>\<open>AttributeError\<close>; the update is modelled for a dictionary \<open>d\<close> (what \<^verbatim>\<open>get_object\<close>
  of a \<^verbatim>\<open>ListClassModel\<close> returns is a list, and the update with it is taken to raise),
  and the bag of a \<^verbatim>\<open>ListClassModel\<close> instance is not extended.
\<close>

fun noarg_new :: "gstate \<Rightarrow> pytype \<Rightarrow> pyval option" where
  "noarg_new st (UserClass n) =
     (case noarg_instance st n of None \<Rightarrow> None | Some kvs \<Rightarrow> Some (PObj n kvs))"
| "noarg_new st (ModelType k) =
     (case noarg_model st k of Inl e \<Rightarrow> None | Inr i \<Rightarrow> Some (PModel i))"
| "noarg_new st NoneType = None"
| "noarg_new st IntType = Some (PInt 0)"
| "noarg_new st StrType = Some (PStr [])"
| "noarg_new st ListType = Some (PList [])"
| "noarg_new st DictType = Some (PDict [])"
| "noarg_new st TraitListObjectType = None"

definition update_dunder_dict :: "pyval \<Rightarrow> pyval \<Rightarrow> error + pyval" where
  "update_dunder_dict new_obj d =
     (case vars new_obj of
        None \<Rightarrow> Inl (AttributeError ''__dict__'')
      | Some bag \<Rightarrow>
          (case d of
             PDict e \<Rightarrow>
               (case new_obj of
                  PObj n kvs \<Rightarrow> Inr (PObj n (dict_update kvs e))
                | PModel (ClassModelI c vals orig) \<Rightarrow>
                    Inr (PModel (ClassModelI c (dict_update vals e) orig))
                | PModel (GenericTraitI ts vals orig il isd) \<Rightarrow>
                    Inr (PModel (GenericTraitI ts (dict_update vals e) orig il isd))
                | _ \<Rightarrow> Inr new_obj)
           | _ \<Rightarrow> Inl (TypeError ''update'')))"

text \<open>
  Python's \<^verbatim>\<open>sorted\<close> on strings: the order is lexicographic on the character codes.
\<close>

fun str_less_eq :: "string \<Rightarrow> string \<Rightarrow> bool" where
  "str_less_eq [] ys = True"
| "str_less_eq (x # xs) [] = False"
| "str_less_eq (x # xs) (y # ys) =
     ((of_char x :: nat) < of_char y \<or> (x = y \<and> str_less_eq xs ys))"

fun insert_sorted :: "string \<Rightarrow> string list \<Rightarrow> string list" where
  "insert_sorted k [] = [k]"
| "insert_sorted k (x # xs) = (if str_less_eq k x then k # x # xs else x # insert_sorted k xs)"

fun py_sorted :: "string list \<Rightarrow> string list" where
  "py_sorted [] = []"
| "py_sorted (k # ks) = insert_sorted k (py_sorted ks)"

type_synonym get_object_fn = "gstate \<Rightarrow> inst \<Rightarrow> bool \<Rightarrow> pyval res"

text \<open>
  \<^verbatim>\<open>GenericTrait.cast_back(obj, cast_to)\<close>; \<open>get_obj\<close> stands for the method
  \<^verbatim>\<open>get_object\<close> of a model instance, which an object of another kind does not have.
\<close>

definition cast_back :: "get_object_fn \<Rightarrow> gstate \<Rightarrow> pyval \<Rightarrow> pytype option \<Rightarrow> pyval res" where
  "cast_back get_obj st obj cast_to =
     (let t = type_func obj in
      if in_registered_base_types t then (Inr obj, st)
      else if t = TraitListObjectType then (Inr (PList (iter obj)), st)
      else
        (case cast_to of
           None \<Rightarrow>
             (case obj of
                PModel i \<Rightarrow> get_obj st i False
              | _ \<Rightarrow> (Inl (AttributeError ''get_object''), st))
         | Some ct \<Rightarrow>
             (case noarg_new st ct of
                None \<Rightarrow>
                  (Inr obj,
                   log LOG_ERROR ''should implement contructor without arguments'' st)
              | Some new_obj \<Rightarrow>
                  (case obj of
                     PModel i \<Rightarrow>
                       bind_res (get_obj st i True)
                         (\<lambda>d st1.
                            case update_dunder_dict new_obj d of
                              Inl e \<Rightarrow> (Inl e, st1)
                            | Inr r \<Rightarrow> (Inr r, st1))
                   | _ \<Rightarrow> (Inl (AttributeError ''get_object''), st)))))"

text \<open>
  \<^verbatim>\<open>_map_dic_values(lambda x: x.get_object() if isinstance(x, ClassModel) else x, elems)\<close>
  of \<^verbatim>\<open>ClassModel.get_conv\<close>. A \<^verbatim>\<open>ListClassModel\<close> is a \<^verbatim>\<open>ClassModel\<close>; a
  \<^verbatim>\<open>GenericTrait\<close> is not.
\<close>

fun isinstance_ClassModel :: "pyval \<Rightarrow> bool" where
  "isinstance_ClassModel (PModel (ClassModelI c vals orig)) = True"
| "isinstance_ClassModel (PModel (ListClassModelI k i oc m)) = True"
| "isinstance_ClassModel v = False"

fun map_dic_values ::
  "get_object_fn \<Rightarrow> gstate \<Rightarrow> (string \<times> pyval) list \<Rightarrow> (string \<times> pyval) list res" where
  "map_dic_values get_obj st [] = (Inr [], st)"
| "map_dic_values get_obj st ((k, x) # d) =
     bind_res
       (case x of
          PModel i \<Rightarrow> (if isinstance_ClassModel x then get_obj st i False else (Inr x, st))
        | _ \<Rightarrow> (Inr x, st))
       (\<lambda>y st1. bind_res (map_dic_values get_obj st1 d) (\<lambda>r st2. (Inr ((k, y) # r), st2)))"

text \<open>\<^verbatim>\<open>ClassModel.get_conv\<close> and \<^verbatim>\<open>ClassModel.get_object(as_dict)\<close>.\<close>

definition get_conv ::
  "get_object_fn \<Rightarrow> gstate \<Rightarrow> nat \<Rightarrow> (string \<times> pyval) list \<Rightarrow> (string \<times> pyval) list res" where
  "get_conv get_obj st c vals =
     (case trait_get st (class_traits (classes st ! c)) vals of
        Inl e \<Rightarrow> (Inl e, st)
      | Inr elems \<Rightarrow> map_dic_values get_obj st elems)"

definition ClassModel_get_object ::
  "get_object_fn \<Rightarrow> gstate \<Rightarrow> nat \<Rightarrow> (string \<times> pyval) list \<Rightarrow> pyval option \<Rightarrow> bool \<Rightarrow> pyval res" where
  "ClassModel_get_object get_obj st c vals orig as_dict =
     bind_res (get_conv get_obj st c vals)
       (\<lambda>elems st1.
          if as_dict then (Inr (PDict elems), st1)
          else
            (case orig of
               None \<Rightarrow> (Inr (PModel (ClassModelI c vals orig)), st1)
             | Some orig_obj \<Rightarrow>
                 (case update_dunder_dict orig_obj (PDict elems) of
                    Inl (AttributeError a) \<Rightarrow> (Inr (PModel (ClassModelI c vals orig)), st1)
                  | Inl e \<Rightarrow> (Inl e, st1)
                  | Inr r \<Rightarrow> (Inr r, st1))))"

text \<open>\<^verbatim>\<open>ListClassModel.get_object\<close>.\<close>

fun cast_back_all ::
  "get_object_fn \<Rightarrow> gstate \<Rightarrow> pyval list \<Rightarrow> pytype option \<Rightarrow> pyval list res" where
  "cast_back_all get_obj st [] cast_to = (Inr [], st)"
| "cast_back_all get_obj st (elem # rest) cast_to =
     bind_res (cast_back get_obj st elem cast_to)
       (\<lambda>y st1. bind_res (cast_back_all get_obj st1 rest cast_to) (\<lambda>r st2. (Inr (y # r), st2)))"

definition ListClassModel_get_object ::
  "get_object_fn \<Rightarrow> gstate \<Rightarrow> pytype option \<Rightarrow> pyval list \<Rightarrow> pyval res" where
  "ListClassModel_get_object get_obj st oc matrix =
     bind_res (cast_back_all get_obj st matrix oc) (\<lambda>r st1. (Inr (PList r), st1))"

text \<open>
  \<^verbatim>\<open>GenericTrait.get_object(as_dict)\<close>. For a list the keys are sorted and the values
  read in that order.
\<close>

fun cast_back_values ::
  "get_object_fn \<Rightarrow> gstate \<Rightarrow> (string \<times> pyval) list \<Rightarrow> (string \<times> pyval) list res" where
  "cast_back_values get_obj st [] = (Inr [], st)"
| "cast_back_values get_obj st ((key, value) # rest) =
     bind_res (cast_back get_obj st value None)
       (\<lambda>y st1. bind_res (cast_back_values get_obj st1 rest) (\<lambda>r st2. (Inr ((key, y) # r), st2)))"

definition GenericTrait_get_object ::
  "get_object_fn \<Rightarrow> gstate \<Rightarrow> (string \<times> trait) list \<Rightarrow> (string \<times> pyval) list \<Rightarrow> pyval option
     \<Rightarrow> bool \<Rightarrow> bool \<Rightarrow> bool \<Rightarrow> pyval res" where
  "GenericTrait_get_object get_obj st traits vals orig is_lst is_dict as_dict =
     (case trait_get st traits vals of
        Inl e \<Rightarrow> (Inl e, st)
      | Inr elems0 \<Rightarrow>
          bind_res (cast_back_values get_obj st elems0)
            (\<lambda>elems st1.
               if \<not> is_lst then
                 (if as_dict \<or> is_dict then (Inr (PDict elems), st1)
                  else
                    (case orig of
                       None \<Rightarrow> (Inl (AttributeError ''__dict__''), st1)
                     | Some orig_obj \<Rightarrow>
                         (case update_dunder_dict orig_obj (PDict elems) of
                            Inl e \<Rightarrow> (Inl e, st1)
                          | Inr r \<Rightarrow> (Inr r, st1))))
               else
                 (let keys = py_sorted (map fst elems) in
                  (Inr (PList (map (\<lambda>key. the (map_of elems key)) keys)), st1))))"

text \<open>The method \<^verbatim>\<open>get_object\<close> of a model instance, by recursion on the call depth.\<close>

fun get_object :: "nat \<Rightarrow> gstate \<Rightarrow> inst \<Rightarrow> bool \<Rightarrow> pyval res" where
  "get_object 0 st i as_dict = (Inl depth_exceeded, st)"
| "get_object (Suc n) st (ClassModelI c vals orig) as_dict =
     ClassModel_get_object (get_object n) st c vals orig as_dict"
| "get_object (Suc n) st (ListClassModelI k tt oc matrix) as_dict =
     ListClassModel_get_object (get_object n) st oc matrix"
| "get_object (Suc n) st (GenericTraitI traits vals orig is_lst is_dict) as_dict =
     GenericTrait_get_object (get_object n) st traits vals orig is_lst is_dict as_dict"

subsection \<open>Templates\<close>



subsection \<open>The entry point \<^verbatim>\<open>edit\<close>\<close>

text \<open>
  \<^verbatim>\<open>edit(obj, replace=False)\<close> when the dialog opened by \<^verbatim>\<open>configure_traits()\<close> is
  closed without a change: \<^verbatim>\<open>trait_ed = get_or_create_editor_for_obj(obj)\<close>, then
  \<^verbatim>\<open>return trait_ed.get_object()\<close>. A value that is not a model instance has neither
  method.
\<close>

definition edit_unchanged :: "nat \<Rightarrow> gstate \<Rightarrow> pyval \<Rightarrow> pyval res" where
  "edit_unchanged n st obj =
     bind_res (get_or_create_editor_for_obj n st obj)
       (\<lambda>trait_ed st1.
          case trait_ed of
            PModel i \<Rightarrow> get_object n st1 i False
          | _ \<Rightarrow> (Inl (AttributeError ''configure_traits''), st1))"

text \<open>The state when the module has been loaded: no class, both registries empty.\<close>

definition initial_state :: gstate where
  "initial_state =
     \<lparr>classes = [], api_types_to_trait = Map.empty, dynamically_created_classes = Map.empty,
      noarg_instance = (\<lambda>n. None), stream = []\<rparr>"

text \<open>
  Two hand-authored models named \<^verbatim>\<open>User\<close> with different fields, as a caller of
  \<^verbatim>\<open>register_api_type_handler\<close> may define them.
\<close>

definition two_user_models :: gstate where
  "two_user_models =
     initial_state\<lparr>classes :=
       [\<lparr>cname = ''User'', is_list_class = False, class_traits = [(''name'', CStr_t)],
         templates = [], inner_type = None, orig_class = None\<rparr>,
        \<lparr>cname = ''User'', is_list_class = False, class_traits = [(''number'', Int_t)],
         templates = [], inner_type = None, orig_class = None\<rparr>]\<rparr>"

subsection \<open>Sample inputs\<close>

text \<open>A list of mixed types with eleven elements.\<close>

definition mixed11 :: pyval where
  "mixed11 =
     PList [PInt 0, PStr ''a'', PInt 2, PInt 3, PInt 4, PInt 5, PInt 6, PInt 7, PInt 8,
            PInt 9, PInt 10]"

text \<open>An object with an attribute of its own class: a list node and its successor.\<close>

definition node :: pyval where
  "node =
     PObj ''Node''
       [(''val'', PInt 1), (''child'', PObj ''Node'' [(''val'', PInt 2), (''child'', PNone)])]"

text \<open>An object with a dictionary as an attribute.\<close>

definition with_dict :: pyval where
  "with_dict = PObj ''A'' [(''d'', PDict [(''k'', PInt 1)])]"

text \<open>
  The list of users of the module's documentation, as objects, a third user, and the
  editor that \<^verbatim>\<open>get_or_create_editor_for_obj\<close> builds for the list.
\<close>

definition users :: pyval where
  "users =
     PList [PObj ''U'' [(''name'', PStr ''F1''), (''number'', PInt 1)],
            PObj ''U'' [(''name'', PStr ''F2''), (''number'', PInt 2)]]"

definition user3 :: pyval where
  "user3 = PObj ''U'' [(''name'', PStr ''F3''), (''number'', PInt 3)]"

definition users_editor :: inst where
  "users_editor =
     ListClassModelI (DynClass 1) (ClassInner 0) (Some (UserClass ''U''))
       [PModel (ClassModelI 0 [(''name'', PStr ''F1''), (''number'', PInt 1)]
                  (Some (PObj ''U'' [(''name'', PStr ''F1''), (''number'', PInt 1)]))),
        PModel (ClassModelI 0 [(''name'', PStr ''F2''), (''number'', PInt 2)]
                  (Some (PObj ''U'' [(''name'', PStr ''F2''), (''number'', PInt 2)])))]"

text \<open>
  A hand-authored model with two templates; the second one gives the integer field a
  string.
\<close>

definition user_model :: gstate where
  "user_model =
     initial_state\<lparr>classes :=
       [\<lparr>cname = ''User'', is_list_class = False,
         class_traits = [(''name'', CStr_t), (''number'', Int_t)],
         templates = [(''user1'', [(''name'', PStr ''F1''), (''number'', PInt 1)]),
                      (''broken'', [(''name'', PStr ''F2''), (''number'', PStr ''two'')])],
         inner_type = None, orig_class = None\<rparr>]\<rparr>"

text \<open>
  An item conforms to the element kind of a list when the item trait of \<^verbatim>\<open>_matrix\<close>
  accepts it.
\<close>

definition conforms :: "inner \<Rightarrow> pyval \<Rightarrow> bool" where
  "conforms trait_t x = (validate (t_edit trait_t) x \<noteq> None)"

text \<open>The list of users again, the second with its number as a string.\<close>

definition users_bad_number :: pyval where
  "users_bad_number =
     PList [PObj ''U'' [(''name'', PStr ''F1''), (''number'', PInt 1)],
            PObj ''U'' [(''name'', PStr ''F2''), (''number'', PStr ''2'')]]"

section \<open>Registration of hand-authored models\<close>

text \<open>
  C8, as the specification states it: a second registration under the same name with a
  different schema fails with a duplicate-registration error. The program has no such
  error: \<^verbatim>\<open>register_api_type_handler\<close> is a dictionary update. Registering the second
  \<^verbatim>\<open>User\<close> model after the first succeeds and replaces it.
\<close>

theorem register_second_schema_replaces_first:
  "classes two_user_models ! 0 \<noteq> classes two_user_models ! 1 \<and>
   api_types_to_trait
     (register_api_type_handler [''User'' \<mapsto> 1]
        (register_api_type_handler [''User'' \<mapsto> 0] two_user_models)) ''User'' = Some 1"
  by (simp add: register_api_type_handler_def two_user_models_def initial_state_def)

text \<open>
  C8, amended: registration never fails; for every name the handler of the latest
  registration is the one stored (a different schema replaces the earlier one, the same
  schema leaves the registry as it was); and \<^verbatim>\<open>get_obj_t\<close> returns a registered
  handler whatever \<^verbatim>\<open>__dynamically_created_classes\<close> holds for that name.
\<close>

theorem register_api_type_handler_latest_wins:
  "api_types_to_trait (register_api_type_handler types st) n =
     (case types n of Some s \<Rightarrow> Some s | None \<Rightarrow> api_types_to_trait st n) \<and>
   (api_types_to_trait st n = Some s \<longrightarrow> register_api_type_handler [n \<mapsto> s] st = st) \<and>
   (types n = Some s \<longrightarrow>
      get_obj_t ((register_api_type_handler types st)\<lparr>dynamically_created_classes := d\<rparr>)
        (UserClass n) = Some s)"
proof (intro conjI impI)
  show "api_types_to_trait (register_api_type_handler types st) n =
     (case types n of Some s \<Rightarrow> Some s | None \<Rightarrow> api_types_to_trait st n)"
    by (simp add: register_api_type_handler_def map_add_def split: option.splits)
next
  assume h: "api_types_to_trait st n = Some s"
  have "api_types_to_trait st ++ [n \<mapsto> s] = api_types_to_trait st"
    using h by (auto simp: map_add_def fun_eq_iff)
  then show "register_api_type_handler [n \<mapsto> s] st = st"
    by (simp add: register_api_type_handler_def)
next
  assume "types n = Some s"
  then show "get_obj_t ((register_api_type_handler types st)\<lparr>dynamically_created_classes := d\<rparr>)
        (UserClass n) = Some s"
    by (simp add: get_obj_t_def register_api_type_handler_def map_add_def)
qed

theorem register_api_type_handler_latest_wins_witness:
  "api_types_to_trait (register_api_type_handler [''User'' \<mapsto> 0] two_user_models) ''User'' = Some 0 \<and>
   register_api_type_handler [''User'' \<mapsto> 0]
     (register_api_type_handler [''User'' \<mapsto> 0] two_user_models) =
     register_api_type_handler [''User'' \<mapsto> 0] two_user_models \<and>
   get_obj_t ((register_api_type_handler [''User'' \<mapsto> 0] two_user_models)
                \<lparr>dynamically_created_classes := [''User'' \<mapsto> 1]\<rparr>) (UserClass ''User'') = Some 0"
proof -
  let ?st = "register_api_type_handler [''User'' \<mapsto> 0] two_user_models"
  have a: "api_types_to_trait ?st ''User'' = Some 0"
    by (simp add: register_api_type_handler_def)
  have b: "[''User'' \<mapsto> (0::nat)] ''User'' = Some 0" by simp
  from register_api_type_handler_latest_wins
         [of "[''User'' \<mapsto> 0]" two_user_models "''User''" 0 "[''User'' \<mapsto> 1]"]
       register_api_type_handler_latest_wins
         [of "[''User'' \<mapsto> 0]" ?st "''User''" 0 "[''User'' \<mapsto> 1]"]
       a b
  show ?thesis by simp
qed


section \<open>Memoization of synthesized classes\<close>

text \<open>
  C1: a type name keeps the class first stored for it. The program fails this on an
  object that holds an object of its own class. \<^verbatim>\<open>_create_ModelClass\<close> stores the new
  class only after \<^verbatim>\<open>_create_get_traits\<close> has classified the attributes; classifying
  the inner \<^verbatim>\<open>Node\<close> creates and stores a class of that name (class 1, first
  conjunct), and the outer call then overwrites the entry with its own class (class 0).
  The two classes differ in the trait of \<^verbatim>\<open>child\<close>, and the editor of the outer object
  loses that field: the inner object is converted with the class now registered, which
  the trait \<^verbatim>\<open>Instance\<close> of the first class rejects.
\<close>

theorem nested_same_type_overwrites_registry_entry:
  "dynamically_created_classes
     (snd (create_get_traits (get_or_create_trait_for 6)
             (initial_state\<lparr>classes := [new_model_class ''Node'']\<rparr>) (ClassTarget 0)
             [(''val'', PInt 1),
              (''child'', PObj ''Node'' [(''val'', PInt 2), (''child'', PNone)])]
             [] [])) ''Node'' = Some 1 \<and>
   dynamically_created_classes (snd (get_or_create_editor_for_obj 8 initial_state node)) ''Node''
     = Some 0 \<and>
   map class_traits (classes (snd (get_or_create_editor_for_obj 8 initial_state node))) =
     [(''val'', Int_t), (''child'', Instance_t (DynClass 1) True)] #
     [(''val'', Int_t), (''child'', Generic_t)] # [] \<and>
   map cname (classes (snd (get_or_create_editor_for_obj 8 initial_state node))) =
     [''Node'', ''Node''] \<and>
   fst (get_or_create_editor_for_obj 8 initial_state node) =
     Inr (PModel (ClassModelI 0 [(''val'', PInt 1)] (Some node))) \<and>
   stream (snd (get_or_create_editor_for_obj 8 initial_state node)) = [''TraitError: child'']"
  by code_simp

section \<open>Round trip of an object\<close>

text \<open>
  C2: editing an object without a change gives back equal attributes. The program fails
  this on an object with a dictionary attribute: \<^verbatim>\<open>ClassModel.get_conv\<close> converts back
  only the values that are \<^verbatim>\<open>ClassModel\<close> instances, and the editor of a dictionary is a
  \<^verbatim>\<open>GenericTrait\<close>; the attribute comes back as that editor.
\<close>

theorem dict_attribute_comes_back_as_editor:
  "fst (edit_unchanged 6 initial_state with_dict) =
     Inr (PObj ''A''
           [(''d'', PModel (GenericTraitI [(''k'', Int_t)] [(''k'', PInt 1)] None False True))])"
  by code_simp

section \<open>Round trip of a list of mixed types\<close>

text \<open>
  C3: the editor of a mixed list has the fields \<^verbatim>\<open>pos0\<close>, \<^verbatim>\<open>pos1\<close>, ... in the order
  of the list, and the round trip gives the elements back in that order. The first part
  holds on the list of eleven elements; the second fails: \<^verbatim>\<open>sorted(elems.keys())\<close>
  orders the names as strings, so \<^verbatim>\<open>pos10\<close> comes before \<^verbatim>\<open>pos2\<close>.
\<close>

theorem mixed_list_round_trip_sorts_names_as_strings:
  "fst (get_or_create_editor_for_obj 3 initial_state mixed11) =
     Inr (PModel (GenericTraitI
           [(''pos0'', Int_t), (''pos1'', CStr_t), (''pos2'', Int_t), (''pos3'', Int_t),
            (''pos4'', Int_t), (''pos5'', Int_t), (''pos6'', Int_t), (''pos7'', Int_t),
            (''pos8'', Int_t), (''pos9'', Int_t), (''pos10'', Int_t)]
           [(''pos0'', PInt 0), (''pos1'', PStr ''a''), (''pos2'', PInt 2), (''pos3'', PInt 3),
            (''pos4'', PInt 4), (''pos5'', PInt 5), (''pos6'', PInt 6), (''pos7'', PInt 7),
            (''pos8'', PInt 8), (''pos9'', PInt 9), (''pos10'', PInt 10)]
           None True False)) \<and>
   fst (edit_unchanged 3 initial_state mixed11) =
     Inr (PList [PInt 0, PStr ''a'', PInt 10, PInt 2, PInt 3, PInt 4, PInt 5, PInt 6, PInt 7,
                 PInt 8, PInt 9])"
  by code_simp

section \<open>Model instances given to the entry point\<close>

text \<open>
  C9: a value that is already a model instance is returned as it is, by
  \<^verbatim>\<open>get_or_create_editor_for_obj\<close> and by \<^verbatim>\<open>get_or_create_trait_for\<close>; nothing is
  synthesized, the state is unchanged.
\<close>

theorem model_instance_is_returned_unchanged:
  "get_or_create_editor_for_obj n st (PModel i) = (Inr (PModel i), st) \<and>
   get_or_create_trait_for (Suc n) st (PModel i) =
     (Inr (Instance_t (class_of i) True, PModel i), st)"
  by (simp add: get_or_create_editor_for_obj_def)

section \<open>Concatenation on a list instance\<close>

lemma validate_t_edit: "validate (t_edit tt) x = Some y \<Longrightarrow> y = x"
  by (cases tt) (auto split: if_splits)

lemma validate_items_conforms:
  "list_all (conforms tt) xs \<Longrightarrow> validate_items (t_edit tt) xs = Some xs"
proof (induction xs)
  case Nil
  then show ?case by simp
next
  case (Cons x xs)
  then obtain y where y: "validate (t_edit tt) x = Some y"
    by (auto simp: conforms_def)
  with validate_t_edit have "y = x" by blast
  with Cons y show ?case by simp
qed

lemma validate_items_rejects:
  "\<not> list_all (conforms tt) xs \<Longrightarrow> validate_items (t_edit tt) xs = None"
  by (induction xs) (auto simp: conforms_def split: option.splits)

text \<open>
  C10, as the claim states it: for every operand \<^verbatim>\<open>__add__\<close> extends \<^verbatim>\<open>_matrix\<close> with
  the elements of the operand. On the program \<^verbatim>\<open>self._matrix += other\<close> goes through
  the library's typed list: a user given as a plain object is rejected by the item trait
  of the list of users (\<^verbatim>\<open>TraitError\<close>), and an integer or another
  \<^verbatim>\<open>ListClassModel\<close> has no length (\<^verbatim>\<open>TypeError\<close>); in these cases the call raises
  and extends nothing.
\<close>

theorem add_raises_for_rejected_item_or_non_sequence:
  "ListClassModel_add users_editor (PList [user3]) = Inl (TraitError ''_matrix'') \<and>
   ListClassModel_add users_editor (PInt 3) =
     Inl (TypeError ''list.extend() argument must be iterable'') \<and>
   ListClassModel_add users_editor (PModel users_editor) =
     Inl (TypeError ''list.extend() argument must be iterable'')"
  by code_simp

text \<open>
  C10, amended: for an operand that is a sequence whose items the item trait of
  \<^verbatim>\<open>_matrix\<close> accepts, \<^verbatim>\<open>__add__\<close> extends \<^verbatim>\<open>_matrix\<close> of the instance by these items
  and returns \<^verbatim>\<open>None\<close>; for an operand that is no sequence it raises \<^verbatim>\<open>TypeError\<close>, for
  a sequence with an item the item trait rejects it raises \<^verbatim>\<open>TraitError\<close>, and in both
  cases nothing is extended; whatever the instance and the operand, a call that returns
  gives \<^verbatim>\<open>None\<close>, never a list.
\<close>

theorem add_extends_matrix_and_returns_None:
  "(operand_items other = Some xs \<and> list_all (conforms tt) xs \<longrightarrow>
      ListClassModel_add (ListClassModelI k tt oc m) other =
        Inr (PNone, ListClassModelI k tt oc (m @ xs))) \<and>
   (ListClassModel_add i other' = Inr (r, i') \<longrightarrow> r = PNone) \<and>
   (operand_items other2 = None \<longrightarrow>
      ListClassModel_add (ListClassModelI k tt oc m) other2 =
        Inl (TypeError ''list.extend() argument must be iterable'')) \<and>
   (operand_items other3 = Some ys \<and> \<not> list_all (conforms tt) ys \<longrightarrow>
      ListClassModel_add (ListClassModelI k tt oc m) other3 = Inl (TraitError ''_matrix''))"
proof (intro conjI impI)
  assume "operand_items other = Some xs \<and> list_all (conforms tt) xs"
  then show "ListClassModel_add (ListClassModelI k tt oc m) other =
        Inr (PNone, ListClassModelI k tt oc (m @ xs))"
    by (simp add: validate_items_conforms)
next
  assume "ListClassModel_add i other' = Inr (r, i')"
  then show "r = PNone"
    by (cases i) (auto split: option.splits)
next
  assume "operand_items other2 = None"
  then show "ListClassModel_add (ListClassModelI k tt oc m) other2 =
        Inl (TypeError ''list.extend() argument must be iterable'')"
    by simp
next
  assume "operand_items other3 = Some ys \<and> \<not> list_all (conforms tt) ys"
  then show "ListClassModel_add (ListClassModelI k tt oc m) other3 = Inl (TraitError ''_matrix'')"
    by (simp add: validate_items_rejects)
qed

theorem add_extends_matrix_and_returns_None_witness:
  "ListClassModel_add users_editor (PList [PModel (ClassModelI 0 [] None)]) =
     Inr (PNone,
          ListClassModelI (DynClass 1) (ClassInner 0) (Some (UserClass ''U''))
            [PModel (ClassModelI 0 [(''name'', PStr ''F1''), (''number'', PInt 1)]
                  (Some (PObj ''U'' [(''name'', PStr ''F1''), (''number'', PInt 1)]))),
             PModel (ClassModelI 0 [(''name'', PStr ''F2''), (''number'', PInt 2)]
                  (Some (PObj ''U'' [(''name'', PStr ''F2''), (''number'', PInt 2)]))),
             PModel (ClassModelI 0 [] None)]) \<and>
   operand_items (PInt 3) = None \<and>
   ListClassModel_add users_editor (PInt 3) =
     Inl (TypeError ''list.extend() argument must be iterable'') \<and>
   operand_items (PList [user3]) = Some [user3] \<and>
   \<not> list_all (conforms (ClassInner 0)) [user3] \<and>
   ListClassModel_add users_editor (PList [user3]) = Inl (TraitError ''_matrix'')"
  using add_extends_matrix_and_returns_None
          [of "PList [PModel (ClassModelI 0 [] None)]" "[PModel (ClassModelI 0 [] None)]"
              "ClassInner 0" "DynClass 1" "Some (UserClass ''U'')"
              "[PModel (ClassModelI 0 [(''name'', PStr ''F1''), (''number'', PInt 1)]
                  (Some (PObj ''U'' [(''name'', PStr ''F1''), (''number'', PInt 1)]))),
                PModel (ClassModelI 0 [(''name'', PStr ''F2''), (''number'', PInt 2)]
                  (Some (PObj ''U'' [(''name'', PStr ''F2''), (''number'', PInt 2)])))]"
              users_editor "PList [PModel (ClassModelI 0 [] None)]" PNone
              "ListClassModelI (DynClass 1) (ClassInner 0) (Some (UserClass ''U''))
            [PModel (ClassModelI 0 [(''name'', PStr ''F1''), (''number'', PInt 1)]
                  (Some (PObj ''U'' [(''name'', PStr ''F1''), (''number'', PInt 1)]))),
             PModel (ClassModelI 0 [(''name'', PStr ''F2''), (''number'', PInt 2)]
                  (Some (PObj ''U'' [(''name'', PStr ''F2''), (''number'', PInt 2)]))),
             PModel (ClassModelI 0 [] None)]"
              "PInt 3" "PList [user3]" "[user3]"]
  by (simp add: users_editor_def user3_def conforms_def)

section \<open>Failure of list synthesis\<close>

lemma init_loop_Any:
  "ListClassModel_init_loop call st AnyInner xs m = (Inr (m @ xs), st)"
  by (induction xs arbitrary: m) (simp_all add: matrix_append_def)

text \<open>
  C5, as the specification states it: synthesis fails exactly for a list without
  elements and without a hint, and every other shape completes. On the program a list
  without elements raises nothing (it becomes an empty \<^verbatim>\<open>GenericTrait\<close>), a list with an
  element fails in \<^verbatim>\<open>ListClassModel\<close> when no inner type is given, and an integer given
  to the entry point raises \<^verbatim>\<open>AttributeError\<close>.
\<close>

theorem empty_list_is_accepted_and_nonempty_list_can_fail:
  "fst (get_or_create_editor_for_obj 3 initial_state (PList [])) =
     Inr (PModel (GenericTraitI [] [] None True False)) \<and>
   fst (ListClassModel_init (call_class 3) initial_state ListClassModelK (PList [PInt 1])
          None None) = Inl no_inner_type \<and>
   fst (get_or_create_editor_for_obj 3 initial_state (PInt 5)) = Inl (AttributeError ''items'')"
  by code_simp

text \<open>
  C5, amended: \<^verbatim>\<open>ListClassModel.__init__\<close> raises the \<^verbatim>\<open>TraitError\<close> of the missing
  inner type whenever neither the argument \<^verbatim>\<open>trait_t\<close> nor the class supplies one,
  whatever the list holds; with the inner type \<^verbatim>\<open>Any\<close> it raises nothing; and a list
  without elements given to \<^verbatim>\<open>create_list_trait\<close>, or to the entry point when no class
  is registered for lists, raises nothing and gives a \<^verbatim>\<open>GenericTrait\<close> without fields.
\<close>

theorem list_synthesis_fails_without_inner_type_only:
  "(class_inner_type st k = None \<longrightarrow>
      ListClassModel_init call st k obj None oc = (Inl no_inner_type, st)) \<and>
   (\<exists>l. ListClassModel_init call st k obj (Some AnyInner) oc = (Inr l, st)) \<and>
   (is_list obj' \<and> iter obj' = [] \<longrightarrow>
      create_list_trait trait_for call st obj' =
        (Inr (Instance_t GenericTraitK False, PModel (GenericTraitI [] [] None True False)), st)) \<and>
   (get_obj_t st ListType = None \<longrightarrow>
      get_or_create_editor_for_obj (Suc n) st (PList []) =
        (Inr (PModel (GenericTraitI [] [] None True False)), st))"
proof (intro conjI impI)
  assume "class_inner_type st k = None"
  then show "ListClassModel_init call st k obj None oc = (Inl no_inner_type, st)"
    by (simp add: ListClassModel_init_def)
next
  show "\<exists>l. ListClassModel_init call st k obj (Some AnyInner) oc = (Inr l, st)"
    by (simp add: ListClassModel_init_def init_loop_Any Let_def)
next
  assume "is_list obj' \<and> iter obj' = []"
  then show "create_list_trait trait_for call st obj' =
        (Inr (Instance_t GenericTraitK False, PModel (GenericTraitI [] [] None True False)), st)"
    by (simp add: create_list_trait_def GenericTrait_init_def enumerate_pos_def)
next
  assume "get_obj_t st ListType = None"
  then show "get_or_create_editor_for_obj (Suc n) st (PList []) =
        (Inr (PModel (GenericTraitI [] [] None True False)), st)"
    by (simp add: get_or_create_editor_for_obj_def create_generic_trait_def
          create_list_trait_def GenericTrait_init_def enumerate_pos_def)
qed

theorem list_synthesis_fails_without_inner_type_only_witness:
  "ListClassModel_init (call_class 3) initial_state ListClassModelK (PList [PInt 1]) None None =
     (Inl no_inner_type, initial_state) \<and>
   create_list_trait (get_or_create_trait_for 3) (call_class 3) initial_state (PList []) =
     (Inr (Instance_t GenericTraitK False, PModel (GenericTraitI [] [] None True False)),
      initial_state) \<and>
   get_or_create_editor_for_obj (Suc 2) initial_state (PList []) =
     (Inr (PModel (GenericTraitI [] [] None True False)), initial_state)"
  using list_synthesis_fails_without_inner_type_only
          [of initial_state ListClassModelK "call_class 3" "PList [PInt 1]" None "PList []"
              "get_or_create_trait_for 3" 2]
  by (simp add: get_obj_t_def initial_state_def)

section \<open>Appending to a list instance\<close>

text \<open>
  C6, as the specification states it: an appended value that does not match the element
  kind is first coerced by constructing an element instance from it. On the program
  \<^verbatim>\<open>append\<close> is \<^verbatim>\<open>self._matrix.append(obj)\<close> and nothing else: a third user given as
  an object is rejected by the item trait, although the element class constructs an
  instance from it.
\<close>

theorem append_rejects_a_value_the_element_class_accepts:
  "fst (get_or_create_editor_for_obj 8 initial_state users) = Inr (PModel users_editor) \<and>
   ListClassModel_append users_editor user3 = Inl (TraitError ''_matrix'') \<and>
   fst (call_class 5 (snd (get_or_create_editor_for_obj 8 initial_state users)) 0 user3) =
     Inr (ClassModelI 0 [(''name'', PStr ''F3''), (''number'', PInt 3)] (Some user3))"
  by code_simp

text \<open>
  C6, amended: \<^verbatim>\<open>append\<close> adds the value as it is when the item trait accepts it (any
  value for the inner type \<^verbatim>\<open>Any\<close>; otherwise \<^verbatim>\<open>None\<close> and the instances of the element
  class) and raises \<^verbatim>\<open>TraitError\<close> otherwise, without constructing anything; so a list
  whose items conform keeps conforming items after an append that returns. The coercion
  \<^verbatim>\<open>trait_t(elem)\<close> is in the constructor only.
\<close>

theorem append_validates_and_never_coerces:
  "ListClassModel_append (ListClassModelI k tt oc m) v =
     (if tt = AnyInner \<or> v = PNone \<or> isinstance_inner v tt
      then Inr (ListClassModelI k tt oc (m @ [v]))
      else Inl (TraitError ''_matrix'')) \<and>
   (list_all (conforms tt) m \<and>
    ListClassModel_append (ListClassModelI k tt oc m) v = Inr (ListClassModelI k' tt' oc' m')
      \<longrightarrow> list_all (conforms tt') m')"
proof (intro conjI impI)
  show a: "ListClassModel_append (ListClassModelI k tt oc m) v =
     (if tt = AnyInner \<or> v = PNone \<or> isinstance_inner v tt
      then Inr (ListClassModelI k tt oc (m @ [v]))
      else Inl (TraitError ''_matrix''))"
    by (cases tt) (auto simp: matrix_append_def)
  assume h: "list_all (conforms tt) m \<and>
    ListClassModel_append (ListClassModelI k tt oc m) v = Inr (ListClassModelI k' tt' oc' m')"
  then have "tt' = tt \<and> m' = m @ [v] \<and> conforms tt v"
    unfolding a by (cases tt) (auto simp: conforms_def split: if_splits)
  with h show "list_all (conforms tt') m'" by simp
qed

theorem append_validates_and_never_coerces_witness:
  "ListClassModel_append users_editor (PModel (ClassModelI 0 [(''name'', PStr ''F3'')] None)) =
     Inr (ListClassModelI (DynClass 1) (ClassInner 0) (Some (UserClass ''U''))
            [PModel (ClassModelI 0 [(''name'', PStr ''F1''), (''number'', PInt 1)]
                  (Some (PObj ''U'' [(''name'', PStr ''F1''), (''number'', PInt 1)]))),
             PModel (ClassModelI 0 [(''name'', PStr ''F2''), (''number'', PInt 2)]
                  (Some (PObj ''U'' [(''name'', PStr ''F2''), (''number'', PInt 2)]))),
             PModel (ClassModelI 0 [(''name'', PStr ''F3'')] None)]) \<and>
   list_all (conforms (ClassInner 0))
            [PModel (ClassModelI 0 [(''name'', PStr ''F1''), (''number'', PInt 1)]
                  (Some (PObj ''U'' [(''name'', PStr ''F1''), (''number'', PInt 1)]))),
             PModel (ClassModelI 0 [(''name'', PStr ''F2''), (''number'', PInt 2)]
                  (Some (PObj ''U'' [(''name'', PStr ''F2''), (''number'', PInt 2)]))),
             PModel (ClassModelI 0 [(''name'', PStr ''F3'')] None)]"
  using append_validates_and_never_coerces
          [of "DynClass 1" "ClassInner 0" "Some (UserClass ''U'')"
              "[PModel (ClassModelI 0 [(''name'', PStr ''F1''), (''number'', PInt 1)]
                  (Some (PObj ''U'' [(''name'', PStr ''F1''), (''number'', PInt 1)]))),
                PModel (ClassModelI 0 [(''name'', PStr ''F2''), (''number'', PInt 2)]
                  (Some (PObj ''U'' [(''name'', PStr ''F2''), (''number'', PInt 2)])))]"
              "PModel (ClassModelI 0 [(''name'', PStr ''F3'')] None)"
              "DynClass 1" "ClassInner 0" "Some (UserClass ''U'')"
              "[PModel (ClassModelI 0 [(''name'', PStr ''F1''), (''number'', PInt 1)]
                  (Some (PObj ''U'' [(''name'', PStr ''F1''), (''number'', PInt 1)]))),
                PModel (ClassModelI 0 [(''name'', PStr ''F2''), (''number'', PInt 2)]
                  (Some (PObj ''U'' [(''name'', PStr ''F2''), (''number'', PInt 2)]))),
                PModel (ClassModelI 0 [(''name'', PStr ''F3'')] None)]"]
  by (simp add: users_editor_def conforms_def)

section \<open>Selecting a template\<close>

lemma map_of_dict_set: "map_of (dict_set d k v) = (map_of d)(k \<mapsto> v)"
  by (induction d) (auto simp: fun_eq_iff)







section \<open>A field whose value is rejected\<close>

lemma keys_dict_set: "fst ` set (dict_set d k v) = insert k (fst ` set d)"
proof -
  have "dom (map_of (dict_set d k v)) = insert k (dom (map_of d))"
    by (simp add: map_of_dict_set)
  then show ?thesis by (simp add: dom_map_of_conv_image_fst)
qed

lemma bind_res_Inr:
  "bind_res m f = (Inr r, st') \<Longrightarrow> \<exists>x st1. m = (Inr x, st1) \<and> f x st1 = (Inr r, st')"
  by (cases m; cases "fst m") auto

lemma set_init_loop_keys:
  "set_init_loop trait_for call st c kvs mods = (Inr r, st') \<Longrightarrow>
   fst ` set r \<subseteq> fst ` set mods \<union> fst ` set kvs"
proof (induction kvs arbitrary: st mods)
  case Nil
  then show ?case by simp
next
  case (Cons kv kvs)
  obtain key val where kv: "kv = (key, val)" by (cases kv)
  have "\<exists>st1 m1. set_init_loop trait_for call st1 c kvs m1 = (Inr r, st') \<and>
           (m1 = mods \<or> (\<exists>x. m1 = dict_set mods key x))"
    using Cons.prems unfolding kv
    by (auto simp: Let_def split: if_splits option.splits prod.splits dest!: bind_res_Inr)
  then obtain st1 m1 where
    run: "set_init_loop trait_for call st1 c kvs m1 = (Inr r, st')"
    and m1: "fst ` set m1 \<subseteq> insert key (fst ` set mods)"
    by (auto simp: keys_dict_set)
  from Cons.IH [OF run] m1 kv show ?case by auto
qed

text \<open>
  What \<^verbatim>\<open>set_init\<close> does with a rejected value that is not a sequence for
  \<^verbatim>\<open>_is_list\<close>. A field whose value reaches the validation (it is not skipped as
  private, as \<^verbatim>\<open>Templates\<close> or as \<^verbatim>\<open>None\<close>, and its conversion did not already drop
  it) and is rejected there is dropped: the loop goes on with the remaining fields and the
  same collected assignments, from the state the conversion left, with one line written
  to the log (at the level \<^verbatim>\<open>ERROR\<close>); no exception comes from this field; and the
  field is not among the assignments in the end, unless the remaining fields give it
  again.
\<close>

theorem rejected_field_is_dropped_and_the_rest_continues:
  assumes "\<not> startswith_underscore key" and "key \<notin> set invalid_keys" and "val \<noteq> PNone"
    and "fst (set_init_convert trait_for st c key val) = Some v"
    and "validate_trait
           (class_traits (classes (snd (set_init_convert trait_for st c key val)) ! c)) key v = None"
    and "\<not> is_list v"
  shows "set_init_loop trait_for call st c ((key, val) # rest) mod_traits =
           set_init_loop trait_for call
             (log LOG_ERROR (''TraitError: '' @ key) (snd (set_init_convert trait_for st c key val)))
             c rest mod_traits \<and>
         stream (log LOG_ERROR (''TraitError: '' @ key)
                   (snd (set_init_convert trait_for st c key val))) =
           stream (snd (set_init_convert trait_for st c key val)) @ [''TraitError: '' @ key] \<and>
         (\<forall>r st'. set_init_loop trait_for call st c ((key, val) # rest) mod_traits = (Inr r, st')
              \<and> key \<notin> fst ` set rest \<and> key \<notin> fst ` set mod_traits
              \<longrightarrow> key \<notin> fst ` set r)"
proof -
  obtain st1 where c1: "set_init_convert trait_for st c key val = (Some v, st1)"
    using assms(4) by (cases "set_init_convert trait_for st c key val") auto
  have step: "set_init_loop trait_for call st c ((key, val) # rest) mod_traits =
           set_init_loop trait_for call (log LOG_ERROR (''TraitError: '' @ key) st1) c rest mod_traits"
    using assms c1 by simp
  have lg: "stream (log LOG_ERROR (''TraitError: '' @ key) st1) =
              stream st1 @ [''TraitError: '' @ key]"
    by (simp add: log_def LOG_ERROR_def)
  have "key \<notin> fst ` set r"
    if "set_init_loop trait_for call st c ((key, val) # rest) mod_traits = (Inr r, st')"
      and "key \<notin> fst ` set rest" and "key \<notin> fst ` set mod_traits" for r st'
    using set_init_loop_keys [of trait_for call _ c rest mod_traits r st'] that step by auto
  with step lg c1 show ?thesis by auto
qed


theorem rejected_field_is_dropped_and_the_rest_continues_witness:
  "fst (set_init_convert (get_or_create_trait_for 3) user_model 0 ''number''
          (PDict [(''x'', PInt 1)])) =
     Some (PModel (GenericTraitI [(''x'', Int_t)] [(''x'', PInt 1)] None False True)) \<and>
   validate_trait
     (class_traits
        (classes (snd (set_init_convert (get_or_create_trait_for 3) user_model 0 ''number''
                         (PDict [(''x'', PInt 1)]))) ! 0))
     ''number'' (PModel (GenericTraitI [(''x'', Int_t)] [(''x'', PInt 1)] None False True)) = None \<and>
   fst (set_init_loop (get_or_create_trait_for 3) (call_class 3) user_model 0
          [(''number'', PDict [(''x'', PInt 1)]), (''name'', PStr ''A'')] []) =
     Inr [(''name'', PStr ''A'')] \<and>
   stream (snd (set_init_loop (get_or_create_trait_for 3) (call_class 3) user_model 0
                  [(''number'', PDict [(''x'', PInt 1)]), (''name'', PStr ''A'')] [])) =
     [''TraitError: number''] \<and>
   fst (call_class 4 user_model 0 (PDict [(''number'', PDict [(''x'', PInt 1)]), (''name'', PStr ''A'')])) =
     Inr (ClassModelI 0 [(''name'', PStr ''A'')] None)"
proof -
  let ?g = "PModel (GenericTraitI [(''x'', Int_t)] [(''x'', PInt 1)] None False True)"
  let ?d = "PDict [(''x'', PInt 1)]"
  have h1: "\<not> startswith_underscore ''number''" by code_simp
  have h2: "''number'' \<notin> set invalid_keys" by code_simp
  have h3: "?d \<noteq> PNone" by simp
  have h4: "fst (set_init_convert (get_or_create_trait_for 3) user_model 0 ''number'' ?d) = Some ?g"
    by code_simp
  have h5: "validate_trait
     (class_traits
        (classes (snd (set_init_convert (get_or_create_trait_for 3) user_model 0 ''number'' ?d)) ! 0))
     ''number'' ?g = None"
    by code_simp
  have h6: "\<not> is_list ?g" by simp
  have e1: "fst (set_init_loop (get_or_create_trait_for 3) (call_class 3) user_model 0
          [(''number'', ?d), (''name'', PStr ''A'')] []) = Inr [(''name'', PStr ''A'')]"
    by code_simp
  have e2: "stream (snd (set_init_loop (get_or_create_trait_for 3) (call_class 3) user_model 0
                  [(''number'', ?d), (''name'', PStr ''A'')] [])) = [''TraitError: number'']"
    by code_simp
  have e3: "fst (call_class 4 user_model 0 (PDict [(''number'', ?d), (''name'', PStr ''A'')])) =
     Inr (ClassModelI 0 [(''name'', PStr ''A'')] None)"
    by code_simp
  from rejected_field_is_dropped_and_the_rest_continues
         [OF h1 h2 h3 h4 h5 h6, of "call_class 3" "[(''name'', PStr ''A'')]" "[]"]
       h4 h5 e1 e2 e3
  show ?thesis by blast
qed

text \<open>
  C7: a field whose value fits neither its declared kind nor the re-route for sequences
  is dropped with a logged warning, and the construction of the instance goes on. The
  program fails this for the commonest such value, a string given to an integer field:
  \<^verbatim>\<open>_is_list\<close> holds for a string, so the handler of the \<^verbatim>\<open>TraitError\<close> takes the
  branch for lists, where \<^verbatim>\<open>_getClassListOf(str)\<close> is \<^verbatim>\<open>None\<close> and calling it raises
  \<^verbatim>\<open>TypeError\<close>; nothing catches it, and the construction is aborted: of the
  hand-authored model, and of the whole list of users when the second user has its
  number as a string.
\<close>

theorem string_for_integer_field_aborts_construction:
  "fst (call_class 4 user_model 0
          (PObj ''User'' [(''number'', PStr ''two''), (''name'', PStr ''A'')])) =
     Inl (TypeError ''NoneType object is not callable'') \<and>
   fst (get_or_create_editor_for_obj 8 initial_state users_bad_number) =
     Inl (TypeError ''NoneType object is not callable'')"
  by code_simp

end
